theory Spec2Isabelle
  imports Main "HOL-Library.Char_ord"
begin

section \<open>Strings as the handlers use them\<close>

text \<open>
  Strings are byte lists. Case folding and the character classes below act on ASCII
  only; the identifiers, e-mail addresses and hour strings the handlers process are ASCII.
\<close>

definition lower_char :: "char \<Rightarrow> char" where
  "lower_char c =
     (case map_of (zip ''ABCDEFGHIJKLMNOPQRSTUVWXYZ'' ''abcdefghijklmnopqrstuvwxyz'') c of
        Some d \<Rightarrow> d | None \<Rightarrow> c)"

definition upper_char :: "char \<Rightarrow> char" where
  "upper_char c =
     (case map_of (zip ''abcdefghijklmnopqrstuvwxyz'' ''ABCDEFGHIJKLMNOPQRSTUVWXYZ'') c of
        Some d \<Rightarrow> d | None \<Rightarrow> c)"

text \<open>JavaScript \<^verbatim>\<open>s.toLowerCase()\<close>, \<^verbatim>\<open>s.toUpperCase()\<close>; SQL \<^verbatim>\<open>lower(s)\<close>.\<close>

definition toLowerCase :: "string \<Rightarrow> string" where
  "toLowerCase s = map lower_char s"

definition toUpperCase :: "string \<Rightarrow> string" where
  "toUpperCase s = map upper_char s"

text \<open>The regular-expression class \<^verbatim>\<open>\w\<close>.\<close>

definition word_char :: "char \<Rightarrow> bool" where
  "word_char c \<longleftrightarrow>
     c \<in> set ''abcdefghijklmnopqrstuvwxyzABCDEFGHIJKLMNOPQRSTUVWXYZ0123456789_''"

definition digit_val :: "char \<Rightarrow> int option" where
  "digit_val c =
     map_of [(CHR ''0'', 0), (CHR ''1'', 1), (CHR ''2'', 2), (CHR ''3'', 3), (CHR ''4'', 4),
             (CHR ''5'', 5), (CHR ''6'', 6), (CHR ''7'', 7), (CHR ''8'', 8), (CHR ''9'', 9)] c"

definition hex_val :: "char \<Rightarrow> int option" where
  "hex_val c =
     (case digit_val c of
        Some d \<Rightarrow> Some d
      | None \<Rightarrow>
          map_of [(CHR ''a'', 10), (CHR ''b'', 11), (CHR ''c'', 12), (CHR ''d'', 13),
                  (CHR ''e'', 14), (CHR ''f'', 15)] (lower_char c))"

text \<open>White space that \<^verbatim>\<open>parseInt\<close> skips (the ASCII part of it).\<close>

definition js_space :: "char \<Rightarrow> bool" where
  "js_space c \<longleftrightarrow> c \<in> {CHR '' '', CHR 0x09, CHR 0x0A, CHR 0x0B, CHR 0x0C, CHR 0x0D}"

text \<open>
  The longest prefix of digits in the given radix, read as a number; \<open>None\<close> when the
  prefix is empty (JavaScript's \<^verbatim>\<open>NaN\<close>).
\<close>

definition parse_digits :: "int \<Rightarrow> (char \<Rightarrow> int option) \<Rightarrow> string \<Rightarrow> int option" where
  "parse_digits radix val s =
     (let ds = takeWhile (\<lambda>c. val c \<noteq> None) s
      in if ds = [] then None
         else Some (foldl (\<lambda>acc c. radix * acc + the (val c)) 0 ds))"

definition with_sign :: "(string \<Rightarrow> int option) \<Rightarrow> string \<Rightarrow> int option" where
  "with_sign digits s =
     (case dropWhile js_space s of
        c # r \<Rightarrow>
          if c = CHR ''-'' then map_option uminus (digits r)
          else if c = CHR ''+'' then digits r
          else digits (c # r)
      | [] \<Rightarrow> None)"

text \<open>\<^verbatim>\<open>parseInt(s, 10)\<close>: \<open>None\<close> is \<^verbatim>\<open>NaN\<close>.\<close>

definition parseInt10 :: "string \<Rightarrow> int option" where
  "parseInt10 s = with_sign (parse_digits 10 digit_val) s"

text \<open>
  \<^verbatim>\<open>parseInt(s)\<close> with no radix: a \<^verbatim>\<open>0x\<close>/\<^verbatim>\<open>0X\<close> prefix selects base 16,
  anything else base 10.
\<close>

definition parseInt :: "string \<Rightarrow> int option" where
  "parseInt s =
     with_sign (\<lambda>r. case r of
                  z # x # h \<Rightarrow>
                    if z = CHR ''0'' \<and> (x = CHR ''x'' \<or> x = CHR ''X'')
                    then parse_digits 16 hex_val h
                    else parse_digits 10 digit_val r
                | _ \<Rightarrow> parse_digits 10 digit_val r) s"

text \<open>
  \<^verbatim>\<open>s.split(sep)\<close> for a one-character separator: the fields between the separators,
  never an empty array (\<^verbatim>\<open>''.split('_')\<close> is \<^verbatim>\<open>['']\<close>).
\<close>

fun split :: "char \<Rightarrow> string \<Rightarrow> string list" where
  "split sep [] = [[]]"
| "split sep (c # s) =
     (if c = sep then [] # split sep s
      else (case split sep s of f # fs \<Rightarrow> (c # f) # fs | [] \<Rightarrow> [[c]]))"

text \<open>\<^verbatim>\<open>xs[i]\<close>: \<open>None\<close> is \<^verbatim>\<open>undefined\<close>.\<close>

definition at_index :: "'a list \<Rightarrow> nat \<Rightarrow> 'a option" where
  "at_index xs i = (if i < length xs then Some (xs ! i) else None)"


section \<open>Dispatcher: the timing gate\<close>

text \<open>
  \<^verbatim>\<open>isAppropriateTime(preferredTime, timezone)\<close> of the nudge scheduler. The clock and
  the time-zone database are outside the program: \<open>userTime\<close> is what
  \<^verbatim>\<open>Intl.DateTimeFormat('en-US', {timeZone, hour: 'numeric', hour12: false}).format(now)\<close>
  returns, \<open>None\<close> when it throws (an unknown time zone). \<open>preferredTime\<close> is \<open>None\<close>
  for a \<^verbatim>\<open>null\<close> column. A comparison with \<^verbatim>\<open>NaN\<close> is false.
\<close>

definition hours_close :: "int option \<Rightarrow> int option \<Rightarrow> bool" where
  "hours_close currentHour preferredHour =
     (case (currentHour, preferredHour) of
        (Some h, Some p) \<Rightarrow> \<bar>h - p\<bar> \<le> 1
      | _ \<Rightarrow> False)"

definition isAppropriateTime :: "string option \<Rightarrow> string option \<Rightarrow> bool" where
  "isAppropriateTime preferredTime userTime =
     (case userTime of
        None \<Rightarrow> True
      | Some ut \<Rightarrow>
          (case preferredTime of
             None \<Rightarrow> True
           | Some pt \<Rightarrow> hours_close (parseInt10 ut) (parseInt10 (hd (split CHR '':'' pt)))))"

text \<open>
  The self-contained scheduler's variant:
  \<^verbatim>\<open>parseInt(preferredTime?.split(':')[0] || '9', 10)\<close>; a missing or empty hour field
  reads as 9.
\<close>

definition isAppropriateTime_sc :: "string option \<Rightarrow> string option \<Rightarrow> bool" where
  "isAppropriateTime_sc preferredTime userTime =
     (case userTime of
        None \<Rightarrow> True
      | Some ut \<Rightarrow>
          (let field = (case preferredTime of None \<Rightarrow> [] | Some pt \<Rightarrow> hd (split CHR '':'' pt));
               hourStr = (if field = [] then ''9'' else field)
           in hours_close (parseInt10 ut) (parseInt10 hourStr)))"


section \<open>Response Recorder: the reference id of a button click\<close>

text \<open>\<^verbatim>\<open>blockId.split('_')[1]\<close>; \<open>None\<close> is \<^verbatim>\<open>undefined\<close>.\<close>

definition referenceId :: "string \<Rightarrow> string option" where
  "referenceId blockId = at_index (split CHR ''_'' blockId) 1"


section \<open>Template rendering\<close>

text \<open>
  The variables of a template: the own properties of the JavaScript object in insertion
  order. A value is the text \<^verbatim>\<open>String(value)\<close> gives; \<open>None\<close> is a property
  that is \<^verbatim>\<open>null\<close> or \<^verbatim>\<open>undefined\<close>.
\<close>

type_synonym variables = "(string \<times> string option) list"

text \<open>
  \<^verbatim>\<open>variables[key]\<close>. A key that is not an own property is looked up on
  \<^verbatim>\<open>Object.prototype\<close>: \<open>inherited key\<close> is the text of the member found there
  (\<^verbatim>\<open>constructor\<close>, \<^verbatim>\<open>toString\<close>, ...), \<open>None\<close> for every other key.
\<close>

definition lookup_var :: "(string \<Rightarrow> string option) \<Rightarrow> variables \<Rightarrow> string \<Rightarrow> string option" where
  "lookup_var inherited vars key =
     (case map_of vars key of Some v \<Rightarrow> v | None \<Rightarrow> inherited key)"

text \<open>
  One attempt of the regular expression \<^verbatim>\<open>\{\{(\w+)\}\}\<close> at the start of a string:
  the captured key and the text that follows the match. The closing brace is no word character,
  so the greedy \<^verbatim>\<open>\w+\<close> never has to give characters back.
\<close>

definition match_placeholder :: "string \<Rightarrow> (string \<times> string) option" where
  "match_placeholder s =
     (case s of
        a # b # t \<Rightarrow>
          if a = CHR ''{'' \<and> b = CHR ''{'' then
            (let key = takeWhile word_char t; r = dropWhile word_char t
             in if key \<noteq> [] \<and> take 2 r = ''}}'' then Some (key, drop 2 r) else None)
          else None
      | _ \<Rightarrow> None)"

lemma match_placeholder_shorter:
  "match_placeholder s = Some (key, rest) \<Longrightarrow> length rest < length s"
proof -
  assume m: "match_placeholder s = Some (key, rest)"
  then obtain a b t where s: "s = a # b # t"
    by (cases s; cases "tl s") (auto simp: match_placeholder_def)
  from m s have "rest = drop 2 (dropWhile word_char t)"
    by (auto simp: match_placeholder_def Let_def split: if_splits)
  moreover have "length (dropWhile word_char t) \<le> length t"
    by (rule length_dropWhile_le)
  ultimately show ?thesis using s by simp
qed

text \<open>
  \<^verbatim>\<open>renderTemplate\<close> of the shared Slack utilities:
  \<^verbatim>\<open>template.replace(/\{\{(\w+)\}\}/g, (_, key) => ...)\<close>. The scan goes left to right;
  the text a placeholder is replaced by is not scanned again.
\<close>

function renderTemplate :: "(string \<Rightarrow> string option) \<Rightarrow> string \<Rightarrow> variables \<Rightarrow> string" where
  "renderTemplate inherited [] vars = []"
| "renderTemplate inherited (c # t) vars =
     (case match_placeholder (c # t) of
        Some (key, rest) \<Rightarrow>
          (case lookup_var inherited vars key of Some v \<Rightarrow> v | None \<Rightarrow> [])
          @ renderTemplate inherited rest vars
      | None \<Rightarrow> c # renderTemplate inherited t vars)"
  by pat_completeness auto
termination
  by (relation "measure (\<lambda>(i, s, v). length s)")
     (auto dest: match_placeholder_shorter)

datatype render_error = JsonSyntaxError | TypeError | RegexKeyOutsideModel

text \<open>
  \<^verbatim>\<open>renderBlocks\<close> of the shared Slack utilities. Blocks are represented by their JSON
  text (what \<^verbatim>\<open>JSON.stringify(blocks)\<close> returns); \<open>json_valid\<close> says whether
  \<^verbatim>\<open>JSON.parse\<close> accepts a text. Missing blocks (\<^verbatim>\<open>undefined\<close>) make
  \<^verbatim>\<open>template.replace\<close> throw.
\<close>

definition renderBlocks ::
  "(string \<Rightarrow> bool) \<Rightarrow> (string \<Rightarrow> string option) \<Rightarrow> string option \<Rightarrow> variables
     \<Rightarrow> render_error + string"
where
  "renderBlocks json_valid inherited blocks vars =
     (case blocks of
        None \<Rightarrow> Inl TypeError
      | Some json \<Rightarrow>
          (let rendered = renderTemplate inherited json vars
           in if json_valid rendered then Inr rendered else Inl JsonSyntaxError))"

text \<open>
  The replacement text of \<^verbatim>\<open>String.prototype.replace\<close> when it is a string:
  \<^verbatim>\<open>$$\<close> is a dollar sign, \<^verbatim>\<open>$&\<close> the matched text, \<^verbatim>\<open>$`\<close> the text in front of the
  match and \<^verbatim>\<open>$'\<close> the text behind it; the pattern has no capture group, so
  \<^verbatim>\<open>$1\<close> and the like stay as they are.
\<close>

fun expand_replacement :: "string \<Rightarrow> string \<Rightarrow> string \<Rightarrow> string \<Rightarrow> string" where
  "expand_replacement matched pre post [] = []"
| "expand_replacement matched pre post [c] = [c]"
| "expand_replacement matched pre post (c # d # r) =
     (if c = CHR ''$'' \<and> d = CHR ''$'' then CHR ''$'' # expand_replacement matched pre post r
      else if c = CHR ''$'' \<and> d = CHR ''&'' then matched @ expand_replacement matched pre post r
      else if c = CHR ''$'' \<and> d = CHR 0x60 then pre @ expand_replacement matched pre post r
      else if c = CHR ''$'' \<and> d = CHR 0x27 then post @ expand_replacement matched pre post r
      else c # expand_replacement matched pre post (d # r))"

text \<open>
  \<^verbatim>\<open>json.replace(new RegExp(`\\{\\{${key}\\}\\}`, 'g'), repl)\<close> for a key without
  regular-expression metacharacters: every occurrence of the literal text
  \<^verbatim>\<open>{{key}}\<close>, left to right. \<open>pre\<close> is the part of the input already passed.
\<close>

function replace_placeholder :: "string \<Rightarrow> string \<Rightarrow> string \<Rightarrow> string \<Rightarrow> string" where
  "replace_placeholder key repl pre [] = []"
| "replace_placeholder key repl pre (c # t) =
     (let pat = ''{{'' @ key @ ''}}''
      in if take (length pat) (c # t) = pat then
           expand_replacement pat pre (drop (length pat) (c # t)) repl
           @ replace_placeholder key repl (pre @ pat) (drop (length pat) (c # t))
         else c # replace_placeholder key repl (pre @ [c]) t)"
  by pat_completeness auto
termination
  by (relation "measure (\<lambda>(k, r, b, s). length s)") auto

definition regex_literal :: "char \<Rightarrow> bool" where
  "regex_literal c \<longleftrightarrow> c \<notin> set ''^$.|?*+()[]{}'' \<and> c \<noteq> CHR 0x5C \<and> c \<noteq> CHR ''/''"

text \<open>
  The loop of the self-contained scheduler's \<^verbatim>\<open>renderBlocks\<close>: one global replace per
  entry of \<^verbatim>\<open>Object.entries(vars)\<close>, each with \<^verbatim>\<open>String(value ?? '')\<close>. A key with
  metacharacters would be read as a regular expression; the callers pass identifiers
  only, and such a key is reported as outside the model.
\<close>

fun replace_entries :: "variables \<Rightarrow> string \<Rightarrow> render_error + string" where
  "replace_entries [] json = Inr json"
| "replace_entries ((key, v) # vars) json =
     (if list_all regex_literal key then
        replace_entries vars
          (replace_placeholder key (case v of Some x \<Rightarrow> x | None \<Rightarrow> []) [] json)
      else Inl RegexKeyOutsideModel)"

text \<open>\<^verbatim>\<open>renderBlocks\<close> of the self-contained scheduler; it is called with blocks present.\<close>

definition renderBlocks_sc ::
  "(string \<Rightarrow> bool) \<Rightarrow> string \<Rightarrow> variables \<Rightarrow> render_error + string"
where
  "renderBlocks_sc json_valid blocks vars =
     (case replace_entries vars blocks of
        Inl e \<Rightarrow> Inl e
      | Inr json \<Rightarrow> if json_valid json then Inr json else Inl JsonSyntaxError)"


section \<open>The relational store\<close>

text \<open>
  Rows of the tables the nudge and survey logic reads and writes. Dates and timestamps
  are integers (days, seconds or milliseconds since the epoch, as the column is used);
  a nullable column is an \<open>option\<close>.
\<close>

record action_item =
  ai_id :: string
  ai_email :: string
  ai_coach_name :: "string option"
  ai_action_text :: string
  ai_due_date :: "int option"
  ai_status :: string
  ai_completed_at :: "int option"

record session =
  s_id :: string
  s_employee_id :: string
  s_employee_email :: string
  s_session_date :: int
  s_appointment_number :: "int option"
  s_coach_name :: "string option"
  s_program_name :: "string option"
  s_status :: string
  s_goals :: "string option"

record employee =
  e_id :: string
  e_company_email :: "string option"
  e_first_name :: "string option"
  e_program :: "string option"

record survey_submission =
  ss_id :: string
  ss_email :: string
  ss_survey_type :: "string option"
  ss_session_id :: "string option"

record slack_nudge =
  n_employee_email :: string
  n_nudge_type :: string
  n_reference_id :: string
  n_reference_type :: string
  n_message_ts :: string
  n_channel_id :: string
  n_sent_at :: int
  n_status :: string
  n_response :: "string option"
  n_responded_at :: "int option"

record slack_installation =
  i_team_id :: string
  i_bot_token :: "string option"

text \<open>
  A row of \<^verbatim>\<open>nudge_templates\<close>; \<open>t_blocks\<close> is the JSON text of
  \<^verbatim>\<open>message_blocks.blocks\<close>, \<open>None\<close> when it is missing.
\<close>

record NudgeTemplate =
  t_nudge_type :: string
  t_blocks :: "string option"
  t_is_default :: bool

text \<open>\<^verbatim>\<open>.single()\<close>: the row when the query returns exactly one, no data otherwise.\<close>

definition single :: "'a list \<Rightarrow> 'a option" where
  "single rows = (case rows of [r] \<Rightarrow> Some r | _ \<Rightarrow> None)"

text \<open>JavaScript truthiness of a nullable string, and \<^verbatim>\<open>x || dflt\<close>.\<close>

definition truthy :: "string option \<Rightarrow> bool" where
  "truthy x \<longleftrightarrow> (case x of None \<Rightarrow> False | Some v \<Rightarrow> v \<noteq> [])"

definition or_else :: "string option \<Rightarrow> string \<Rightarrow> string" where
  "or_else x dflt = (case x of None \<Rightarrow> dflt | Some v \<Rightarrow> if v = [] then dflt else v)"


section \<open>Dispatcher\<close>

text \<open>The row types of the scheduler: what the two remote procedures return.\<close>

record ActionItem =
  action_id :: string
  email :: string
  action_text :: string
  due_date :: int
  coach_name :: "string option"
  first_name :: string

record SlackConnection =
  slack_user_id :: string
  slack_dm_channel_id :: string
  nudge_enabled :: bool
  nudge_frequency :: string
  preferred_time :: "string option"
  timezone :: string
  bot_token :: string

text \<open>One call of \<^verbatim>\<open>chat.postMessage\<close> and what it can answer.\<close>

record slack_message =
  m_token :: string
  m_channel :: string
  m_blocks :: string
  m_text :: string

datatype post_result = PostThrew | PostResult bool "string option"

text \<open>
  What lies outside the scheduler: the connection procedure
  \<^verbatim>\<open>get_employee_slack_connection\<close> (\<open>None\<close> when it returns no data), the hour
  \<^verbatim>\<open>Intl.DateTimeFormat\<close> prints for a time zone (\<open>None\<close> when it throws), the
  messaging API, \<^verbatim>\<open>JSON.parse\<close>, the members of \<^verbatim>\<open>Object.prototype\<close>, the text
  \<^verbatim>\<open>formatDueDate\<close> prints, the \<^verbatim>\<open>PORTAL_URL\<close> variable, the first name joined to
  an action item, and the clock.
\<close>

record sched_env =
  env_connection :: "string \<Rightarrow> SlackConnection list option"
  env_user_time :: "string \<Rightarrow> string option"
  env_post :: "slack_message \<Rightarrow> post_result"
  env_json_valid :: "string \<Rightarrow> bool"
  env_inherited :: "string \<Rightarrow> string option"
  env_format_due :: "int \<Rightarrow> string"
  env_portal_url :: "string option"
  env_first_name :: "string \<Rightarrow> string"
  env_now :: int

text \<open>
  What a cycle changes: the \<^verbatim>\<open>slack_nudges\<close> table, the messages handed to the
  messaging API, and the counters of the \<^verbatim>\<open>results\<close> object.
\<close>

record sched_state =
  nudges :: "slack_nudge list"
  posted :: "slack_message list"
  action_reminders_sent :: nat
  goal_checkins_sent :: nat
  session_preps_sent :: nat
  errors :: nat

text \<open>
  Modelled from the spec: the remote procedure \<^verbatim>\<open>record_nudge\<close> is not among the sources.
  Section 4.2, step 8: on a successful send, persist a new NudgeRecord with status
  \<^verbatim>\<open>sent\<close> and the message handle.
\<close>

definition record_nudge ::
  "int \<Rightarrow> string \<Rightarrow> string \<Rightarrow> string \<Rightarrow> string \<Rightarrow> string \<Rightarrow> string
     \<Rightarrow> slack_nudge list \<Rightarrow> slack_nudge list"
where
  "record_nudge now p_employee_email p_nudge_type p_reference_id p_reference_type
       p_message_ts p_channel_id table =
     table @ [\<lparr> n_employee_email = p_employee_email, n_nudge_type = p_nudge_type,
                n_reference_id = p_reference_id, n_reference_type = p_reference_type,
                n_message_ts = p_message_ts, n_channel_id = p_channel_id, n_sent_at = now,
                n_status = ''sent'', n_response = None, n_responded_at = None \<rparr>]"

text \<open>
  Modelled from the spec: the remote procedure \<^verbatim>\<open>get_due_action_items\<close> is not among the
  sources. Section 4.1: action items whose due date falls within a forward-looking
  window and whose status is not yet terminal (completed or dismissed), each with the
  employee's e-mail, first name, coach name and reference id.
\<close>

definition get_due_action_items ::
  "(string \<Rightarrow> string) \<Rightarrow> int \<Rightarrow> int \<Rightarrow> action_item list \<Rightarrow> ActionItem list"
where
  "get_due_action_items first_name_of today days_ahead items =
     concat (map (\<lambda>r.
        case ai_due_date r of
          None \<Rightarrow> []
        | Some d \<Rightarrow>
            if today \<le> d \<and> d \<le> today + days_ahead
               \<and> ai_status r \<noteq> ''completed'' \<and> ai_status r \<noteq> ''dismissed''
            then [\<lparr> action_id = ai_id r, email = ai_email r, action_text = ai_action_text r,
                     due_date = d, coach_name = ai_coach_name r,
                     first_name = first_name_of (ai_email r) \<rparr>]
            else []) items)"

text \<open>
  \<^verbatim>\<open>templateMap\<close>: the default templates by nudge kind; a later row replaces an
  earlier one of the same kind.
\<close>

definition templateMap :: "NudgeTemplate list \<Rightarrow> string \<Rightarrow> NudgeTemplate option" where
  "templateMap templates kind =
     map_of (rev (map (\<lambda>t. (t_nudge_type t, t)) (filter t_is_default templates))) kind"

text \<open>
  The query on \<^verbatim>\<open>slack_nudges\<close> that asks whether a candidate was nudged before:
  equality on e-mail (lower-cased by the caller), kind and reference id, then
  \<^verbatim>\<open>.single()\<close>.
\<close>

definition existingNudge :: "slack_nudge list \<Rightarrow> string \<Rightarrow> string \<Rightarrow> string \<Rightarrow> slack_nudge option" where
  "existingNudge table mail kind ref =
     single (filter (\<lambda>n. n_employee_email n = toLowerCase mail \<and> n_nudge_type n = kind
                          \<and> n_reference_id n = ref) table)"

text \<open>
  The tail the three sections of the scheduler share: send the rendered blocks; when the
  API answers \<^verbatim>\<open>ok\<close> with a message handle, record the nudge and count it, otherwise
  count an error. \<open>bump\<close> increments the section's counter.
\<close>

definition send_and_record ::
  "sched_env \<Rightarrow> SlackConnection \<Rightarrow> string \<Rightarrow> string \<Rightarrow> string \<Rightarrow> string \<Rightarrow> string \<Rightarrow> string
     \<Rightarrow> (sched_state \<Rightarrow> sched_state) \<Rightarrow> sched_state \<Rightarrow> sched_state"
where
  "send_and_record env connection blocks text mail kind ref ref_type bump st =
     (let msg = \<lparr> m_token = bot_token connection, m_channel = slack_dm_channel_id connection,
                   m_blocks = blocks, m_text = text \<rparr>;
          st1 = st\<lparr> posted := posted st @ [msg] \<rparr>
      in case env_post env msg of
           PostThrew \<Rightarrow> st1\<lparr> errors := errors st1 + 1 \<rparr>
         | PostResult ok ts \<Rightarrow>
             if ok \<and> truthy ts then
               bump (st1\<lparr> nudges := record_nudge (env_now env) mail kind ref ref_type
                                        (the ts) (slack_dm_channel_id connection) (nudges st1) \<rparr>)
             else st1\<lparr> errors := errors st1 + 1 \<rparr>)"

text \<open>
  The guards every section applies to a candidate's connection: the first row the
  procedure returns, its \<^verbatim>\<open>nudge_enabled\<close> flag, the timing gate. \<open>None\<close> means
  \<^verbatim>\<open>continue\<close>.
\<close>

definition usable_connection :: "sched_env \<Rightarrow> string \<Rightarrow> SlackConnection option" where
  "usable_connection env mail =
     (case env_connection env mail of
        None \<Rightarrow> None
      | Some [] \<Rightarrow> None
      | Some (connection # _) \<Rightarrow>
          if \<not> nudge_enabled connection then None
          else if \<not> isAppropriateTime (preferred_time connection)
                      (env_user_time env (timezone connection)) then None
          else Some connection)"

text \<open>Section 1 of the scheduler, the body of the loop over due action items.\<close>

definition process_action :: "sched_env \<Rightarrow> NudgeTemplate list \<Rightarrow> sched_state \<Rightarrow> ActionItem \<Rightarrow> sched_state" where
  "process_action env templates st action =
     (case usable_connection env (email action) of
        None \<Rightarrow> st
      | Some connection \<Rightarrow>
          (case templateMap templates ''action_reminder'' of
             None \<Rightarrow> st
           | Some template \<Rightarrow>
               (case renderBlocks (env_json_valid env) (env_inherited env) (t_blocks template)
                       [(''first_name'', Some (first_name action)),
                        (''coach_name'', Some (or_else (coach_name action) ''your coach'')),
                        (''action_text'', Some (action_text action)),
                        (''due_date'', Some (env_format_due env (due_date action))),
                        (''action_id'', Some (action_id action))] of
                  Inl _ \<Rightarrow> st\<lparr> errors := errors st + 1 \<rparr>
                | Inr blocks \<Rightarrow>
                    send_and_record env connection blocks (''Reminder: '' @ action_text action)
                      (email action) ''action_reminder'' (action_id action) ''action_item''
                      (\<lambda>s. s\<lparr> action_reminders_sent := action_reminders_sent s + 1 \<rparr>) st)))"

text \<open>
  Sections 2 and 3 loop over sessions joined with their employee
  (\<^verbatim>\<open>employee_manager!inner(company_email, first_name)\<close>).
\<close>

definition process_goal ::
  "sched_env \<Rightarrow> NudgeTemplate list \<Rightarrow> sched_state \<Rightarrow> session \<times> employee \<Rightarrow> sched_state"
where
  "process_goal env templates st row =
     (let session = fst row; employee = snd row
      in if \<not> truthy (e_company_email employee) then st
         else
           (let mail = the (e_company_email employee)
            in if existingNudge (nudges st) mail ''goal_checkin'' (s_id session) \<noteq> None then st
               else
                 (case usable_connection env mail of
                    None \<Rightarrow> st
                  | Some connection \<Rightarrow>
                      (case templateMap templates ''goal_checkin'' of
                         None \<Rightarrow> st
                       | Some template \<Rightarrow>
                           (case renderBlocks (env_json_valid env) (env_inherited env)
                                   (t_blocks template)
                                   [(''first_name'', e_first_name employee),
                                    (''coach_name'', Some (or_else (s_coach_name session) ''your coach'')),
                                    (''goals'', s_goals session),
                                    (''session_id'', Some (s_id session))] of
                              Inl _ \<Rightarrow> st\<lparr> errors := errors st + 1 \<rparr>
                            | Inr blocks \<Rightarrow>
                                send_and_record env connection blocks
                                  ''How's progress on your coaching goals?''
                                  mail ''goal_checkin'' (s_id session) ''session''
                                  (\<lambda>s. s\<lparr> goal_checkins_sent := goal_checkins_sent s + 1 \<rparr>) st)))))"

definition process_prep ::
  "sched_env \<Rightarrow> NudgeTemplate list \<Rightarrow> sched_state \<Rightarrow> session \<times> employee \<Rightarrow> sched_state"
where
  "process_prep env templates st row =
     (let session = fst row; employee = snd row
      in if \<not> truthy (e_company_email employee) then st
         else
           (let mail = the (e_company_email employee)
            in if existingNudge (nudges st) mail ''session_prep'' (s_id session) \<noteq> None then st
               else
                 (case usable_connection env mail of
                    None \<Rightarrow> st
                  | Some connection \<Rightarrow>
                      (case templateMap templates ''session_prep'' of
                         None \<Rightarrow> st
                       | Some template \<Rightarrow>
                           (case renderBlocks (env_json_valid env) (env_inherited env)
                                   (t_blocks template)
                                   [(''first_name'', e_first_name employee),
                                    (''coach_name'', Some (or_else (s_coach_name session) ''your coach'')),
                                    (''session_id'', Some (s_id session)),
                                    (''portal_url'',
                                       Some (or_else (env_portal_url env) ''http://localhost:5173''))] of
                              Inl _ \<Rightarrow> st\<lparr> errors := errors st + 1 \<rparr>
                            | Inr blocks \<Rightarrow>
                                send_and_record env connection blocks
                                  ''You have a coaching session tomorrow!''
                                  mail ''session_prep'' (s_id session) ''session''
                                  (\<lambda>s. s\<lparr> session_preps_sent := session_preps_sent s + 1 \<rparr>) st)))))"

text \<open>The inner join of sessions with \<^verbatim>\<open>employee_manager\<close> on the employee id.\<close>

definition join_employee :: "employee list \<Rightarrow> session list \<Rightarrow> (session \<times> employee) list" where
  "join_employee employees sessions =
     concat (map (\<lambda>s. map (\<lambda>e. (s, e)) (filter (\<lambda>e. e_id e = s_employee_id s) employees))
                 sessions)"

text \<open>
  The two session scans: completed sessions dated three to four days back that carry
  goals, and upcoming sessions dated tomorrow. \<open>today\<close> is the scheduler's own date.
\<close>

definition recentSessions :: "int \<Rightarrow> employee list \<Rightarrow> session list \<Rightarrow> (session \<times> employee) list" where
  "recentSessions today employees sessions =
     join_employee employees
       (filter (\<lambda>s. s_status s = ''Completed'' \<and> today - 4 \<le> s_session_date s
                     \<and> s_session_date s \<le> today - 3 \<and> s_goals s \<noteq> None) sessions)"

definition upcomingSessions :: "int \<Rightarrow> employee list \<Rightarrow> session list \<Rightarrow> (session \<times> employee) list" where
  "upcomingSessions today employees sessions =
     join_employee employees
       (filter (\<lambda>s. s_status s = ''Upcoming'' \<and> s_session_date s = today + 1) sessions)"

text \<open>The tables a cycle reads.\<close>

record sched_tables =
  action_items :: "action_item list"
  session_tracking :: "session list"
  employee_manager :: "employee list"
  nudge_templates :: "NudgeTemplate list"

text \<open>
  One run of the scheduler's handler for a \<^verbatim>\<open>GET\<close> or \<^verbatim>\<open>POST\<close>: the three sections in
  order. The counters start at zero in every run; the table of nudges and the messages
  sent so far are carried over.
\<close>

definition nudge_scheduler :: "sched_env \<Rightarrow> int \<Rightarrow> sched_tables \<Rightarrow> sched_state \<Rightarrow> sched_state" where
  "nudge_scheduler env today db st0 =
     (let st = st0\<lparr> action_reminders_sent := 0, goal_checkins_sent := 0,
                     session_preps_sent := 0, errors := 0 \<rparr>;
          templates = nudge_templates db;
          dueActions = get_due_action_items (env_first_name env) today 2 (action_items db);
          st1 = foldl (process_action env templates) st dueActions;
          st2 = foldl (process_goal env templates) st1
                  (recentSessions today (employee_manager db) (session_tracking db));
          st3 = foldl (process_prep env templates) st2
                  (upcomingSessions today (employee_manager db) (session_tracking db))
      in st3)"


subsection \<open>The self-contained scheduler\<close>

text \<open>
  The variant deployed from the dashboard inlines its helpers. It differs in the timing
  gate's default hour, in the renderer, in skipping a template without blocks, and in
  not counting an error when the API answers without \<^verbatim>\<open>ok\<close>.
\<close>

definition send_and_record_sc ::
  "sched_env \<Rightarrow> SlackConnection \<Rightarrow> string \<Rightarrow> string \<Rightarrow> string \<Rightarrow> string \<Rightarrow> string \<Rightarrow> string
     \<Rightarrow> (sched_state \<Rightarrow> sched_state) \<Rightarrow> sched_state \<Rightarrow> sched_state"
where
  "send_and_record_sc env conn blocks text mail kind ref ref_type bump st =
     (let msg = \<lparr> m_token = bot_token conn, m_channel = slack_dm_channel_id conn,
                   m_blocks = blocks, m_text = text \<rparr>;
          st1 = st\<lparr> posted := posted st @ [msg] \<rparr>
      in case env_post env msg of
           PostThrew \<Rightarrow> st1\<lparr> errors := errors st1 + 1 \<rparr>
         | PostResult ok ts \<Rightarrow>
             if ok \<and> truthy ts then
               bump (st1\<lparr> nudges := record_nudge (env_now env) mail kind ref ref_type
                                        (the ts) (slack_dm_channel_id conn) (nudges st1) \<rparr>)
             else st1)"

definition usable_connection_sc :: "sched_env \<Rightarrow> string \<Rightarrow> SlackConnection option" where
  "usable_connection_sc env mail =
     (case env_connection env mail of
        None \<Rightarrow> None
      | Some [] \<Rightarrow> None
      | Some (conn # _) \<Rightarrow>
          if \<not> nudge_enabled conn
             \<or> \<not> isAppropriateTime_sc (preferred_time conn) (env_user_time env (timezone conn))
          then None
          else Some conn)"

text \<open>\<^verbatim>\<open>templateMap.get(kind)\<close> followed by \<^verbatim>\<open>if (!template?.blocks) continue\<close>.\<close>

definition template_blocks_sc :: "NudgeTemplate list \<Rightarrow> string \<Rightarrow> string option" where
  "template_blocks_sc templates kind =
     (case templateMap templates kind of None \<Rightarrow> None | Some t \<Rightarrow> t_blocks t)"

definition process_action_sc :: "sched_env \<Rightarrow> NudgeTemplate list \<Rightarrow> sched_state \<Rightarrow> ActionItem \<Rightarrow> sched_state" where
  "process_action_sc env templates st action =
     (case usable_connection_sc env (email action) of
        None \<Rightarrow> st
      | Some conn \<Rightarrow>
          (case template_blocks_sc templates ''action_reminder'' of
             None \<Rightarrow> st
           | Some template \<Rightarrow>
               (case renderBlocks_sc (env_json_valid env) template
                       [(''first_name'', Some (first_name action)),
                        (''coach_name'', Some (or_else (coach_name action) ''your coach'')),
                        (''action_text'', Some (action_text action)),
                        (''due_date'', Some (env_format_due env (due_date action))),
                        (''action_id'', Some (action_id action))] of
                  Inl _ \<Rightarrow> st\<lparr> errors := errors st + 1 \<rparr>
                | Inr blocks \<Rightarrow>
                    send_and_record_sc env conn blocks (''Reminder: '' @ action_text action)
                      (email action) ''action_reminder'' (action_id action) ''action_item''
                      (\<lambda>s. s\<lparr> action_reminders_sent := action_reminders_sent s + 1 \<rparr>) st)))"

definition process_goal_sc ::
  "sched_env \<Rightarrow> NudgeTemplate list \<Rightarrow> sched_state \<Rightarrow> session \<times> employee \<Rightarrow> sched_state"
where
  "process_goal_sc env templates st row =
     (let session = fst row; employee = snd row
      in if \<not> truthy (e_company_email employee) then st
         else
           (let mail = the (e_company_email employee)
            in if existingNudge (nudges st) mail ''goal_checkin'' (s_id session) \<noteq> None then st
               else
                 (case usable_connection_sc env mail of
                    None \<Rightarrow> st
                  | Some conn \<Rightarrow>
                      (case template_blocks_sc templates ''goal_checkin'' of
                         None \<Rightarrow> st
                       | Some template \<Rightarrow>
                           (case renderBlocks_sc (env_json_valid env) template
                                   [(''first_name'', e_first_name employee),
                                    (''coach_name'', Some (or_else (s_coach_name session) ''your coach'')),
                                    (''goals'', s_goals session),
                                    (''session_id'', Some (s_id session))] of
                              Inl _ \<Rightarrow> st\<lparr> errors := errors st + 1 \<rparr>
                            | Inr blocks \<Rightarrow>
                                send_and_record_sc env conn blocks
                                  ''How's progress on your goals?''
                                  mail ''goal_checkin'' (s_id session) ''session''
                                  (\<lambda>s. s\<lparr> goal_checkins_sent := goal_checkins_sent s + 1 \<rparr>) st)))))"

definition process_prep_sc ::
  "sched_env \<Rightarrow> NudgeTemplate list \<Rightarrow> sched_state \<Rightarrow> session \<times> employee \<Rightarrow> sched_state"
where
  "process_prep_sc env templates st row =
     (let session = fst row; employee = snd row
      in if \<not> truthy (e_company_email employee) then st
         else
           (let mail = the (e_company_email employee)
            in if existingNudge (nudges st) mail ''session_prep'' (s_id session) \<noteq> None then st
               else
                 (case usable_connection_sc env mail of
                    None \<Rightarrow> st
                  | Some conn \<Rightarrow>
                      (case template_blocks_sc templates ''session_prep'' of
                         None \<Rightarrow> st
                       | Some template \<Rightarrow>
                           (case renderBlocks_sc (env_json_valid env) template
                                   [(''first_name'', e_first_name employee),
                                    (''coach_name'', Some (or_else (s_coach_name session) ''your coach'')),
                                    (''session_id'', Some (s_id session)),
                                    (''portal_url'',
                                       Some (or_else (env_portal_url env) ''https://my.boon-health.com''))] of
                              Inl _ \<Rightarrow> st\<lparr> errors := errors st + 1 \<rparr>
                            | Inr blocks \<Rightarrow>
                                send_and_record_sc env conn blocks ''Session tomorrow!''
                                  mail ''session_prep'' (s_id session) ''session''
                                  (\<lambda>s. s\<lparr> session_preps_sent := session_preps_sent s + 1 \<rparr>) st)))))"

definition nudge_scheduler_sc :: "sched_env \<Rightarrow> int \<Rightarrow> sched_tables \<Rightarrow> sched_state \<Rightarrow> sched_state" where
  "nudge_scheduler_sc env today db st0 =
     (let st = st0\<lparr> action_reminders_sent := 0, goal_checkins_sent := 0,
                     session_preps_sent := 0, errors := 0 \<rparr>;
          templates = nudge_templates db;
          dueActions = get_due_action_items (env_first_name env) today 2 (action_items db);
          st1 = foldl (process_action_sc env templates) st dueActions;
          st2 = foldl (process_goal_sc env templates) st1
                  (recentSessions today (employee_manager db) (session_tracking db));
          st3 = foldl (process_prep_sc env templates) st2
                  (upcomingSessions today (employee_manager db) (session_tracking db))
      in st3)"


section \<open>Survey Progression Resolver\<close>

definition milestones :: "int list" where
  "milestones = [1, 3, 6, 12, 18, 24, 30, 36]"

definition at_milestone :: "session \<Rightarrow> bool" where
  "at_milestone st \<longleftrightarrow>
     (case s_appointment_number st of None \<Rightarrow> False | Some n \<Rightarrow> n \<in> set milestones)"

text \<open>
  \<^verbatim>\<open>ILIKE\<close> as the client's \<^verbatim>\<open>.ilike(column, pattern)\<close> reaches it: \<^verbatim>\<open>%\<close> (and
  its alias \<^verbatim>\<open>*\<close> in the query string) stands for any text, \<^verbatim>\<open>_\<close> for any one
  character, a backslash makes the next character literal, and letters match without
  regard to case. A pattern ending in a lone backslash is an error in the database; here
  it matches nothing, which every caller below treats alike.
\<close>

fun like_pattern :: "string \<Rightarrow> string \<Rightarrow> bool" where
  "like_pattern [] txt = (txt = [])"
| "like_pattern (p # ps) txt =
     (if p = CHR ''%'' \<or> p = CHR ''*'' then
        list_ex (\<lambda>k. like_pattern ps (drop k txt)) [0 ..< Suc (length txt)]
      else if p = CHR 0x5C then
        (case ps of
           [] \<Rightarrow> False
         | e # ps' \<Rightarrow>
             (case txt of [] \<Rightarrow> False | c # t \<Rightarrow> lower_char c = lower_char e \<and> like_pattern ps' t))
      else if p = CHR ''_'' then
        (case txt of [] \<Rightarrow> False | c # t \<Rightarrow> like_pattern ps t)
      else
        (case txt of [] \<Rightarrow> False | c # t \<Rightarrow> lower_char c = lower_char p \<and> like_pattern ps t))"

definition ilike :: "string \<Rightarrow> string \<Rightarrow> bool" where
  "ilike txt pattern = like_pattern pattern txt"

text \<open>The row of a pending survey, as the portal receives it.\<close>

record PendingSurvey =
  session_id :: string
  session_number :: "int option"
  session_date :: int
  ps_coach_name :: "string option"
  survey_type :: string

text \<open>A row of the view \<^verbatim>\<open>pending_surveys\<close>: the employee's e-mail and the columns above.\<close>

type_synonym pending_row = "string \<times> PendingSurvey"

text \<open>
  The view \<^verbatim>\<open>pending_surveys\<close>: completed milestone sessions, joined with their
  employee, for which no submission with the same e-mail (compared in lower case) and
  session id exists. The suggested survey type is \<^verbatim>\<open>scale_feedback\<close> on every
  milestone.
\<close>

definition pending_surveys ::
  "session list \<Rightarrow> employee list \<Rightarrow> survey_submission list \<Rightarrow> pending_row list"
where
  "pending_surveys sessions employees submissions =
     map (\<lambda>(st, em).
            (s_employee_email st,
             \<lparr> session_id = s_id st, session_number = s_appointment_number st,
               session_date = s_session_date st, ps_coach_name = s_coach_name st,
               survey_type = ''scale_feedback'' \<rparr>))
       (filter (\<lambda>(st, em).
                  s_status st = ''Completed'' \<and> at_milestone st
                  \<and> \<not> list_ex (\<lambda>ss. toLowerCase (ss_email ss) = toLowerCase (s_employee_email st)
                                     \<and> ss_session_id ss = Some (s_id st)) submissions)
          (join_employee employees sessions))"

text \<open>
  The function \<^verbatim>\<open>get_pending_survey(user_email)\<close>:
  \<^verbatim>\<open>ORDER BY ps.session_date DESC LIMIT 1\<close> over the view's rows of that e-mail. Among
  rows of equal date the database may return any; the model keeps the table's order.
\<close>

definition get_pending_survey ::
  "session list \<Rightarrow> employee list \<Rightarrow> survey_submission list \<Rightarrow> string \<Rightarrow> PendingSurvey list"
where
  "get_pending_survey sessions employees submissions user_email =
     take 1 (sort_key (\<lambda>r. - session_date r)
               (map snd (filter (\<lambda>(mail, r). toLowerCase mail = toLowerCase user_email)
                           (pending_surveys sessions employees submissions))))"

text \<open>\<^verbatim>\<open>hasCompletedBaselineSurvey(email)\<close>.\<close>

definition hasCompletedBaselineSurvey :: "survey_submission list \<Rightarrow> string \<Rightarrow> bool" where
  "hasCompletedBaselineSurvey submissions mail \<longleftrightarrow>
     list_ex (\<lambda>ss. ilike (ss_email ss) mail \<and> ss_survey_type ss = Some ''grow_baseline'')
       submissions"

text \<open>
  The fallback of \<^verbatim>\<open>fetchPendingSurvey\<close>: the loop over the employee's completed
  milestone sessions, oldest first, that returns at the first session without a
  submission.
\<close>

fun first_unsurveyed ::
  "survey_submission list \<Rightarrow> string \<Rightarrow> string option \<Rightarrow> session list \<Rightarrow> PendingSurvey option"
where
  "first_unsurveyed submissions mail programType [] = None"
| "first_unsurveyed submissions mail programType (session # rest) =
     (if \<not> list_ex (\<lambda>ss. ilike (ss_email ss) mail \<and> ss_session_id ss = Some (s_id session))
              submissions
      then
        (let sessionProgram =
               (if truthy (s_program_name session) then s_program_name session else programType);
             isGrow = (case sessionProgram of
                         None \<Rightarrow> False
                       | Some prog \<Rightarrow> toUpperCase prog = ''GROW'');
             surveyType =
               (if isGrow then
                  (if hasCompletedBaselineSurvey submissions mail
                   then ''scale_feedback'' else ''grow_baseline'')
                else ''scale_feedback'')
         in Some \<lparr> session_id = s_id session, session_number = s_appointment_number session,
                   session_date = s_session_date session,
                   ps_coach_name = Some (or_else (s_coach_name session) ''Your Coach''),
                   survey_type = surveyType \<rparr>)
      else first_unsurveyed submissions mail programType rest)"

definition pending_fallback ::
  "session list \<Rightarrow> survey_submission list \<Rightarrow> string \<Rightarrow> string option \<Rightarrow> PendingSurvey option"
where
  "pending_fallback sessions submissions mail programType =
     first_unsurveyed submissions mail programType
       (sort_key s_session_date
          (filter (\<lambda>st. ilike (s_employee_email st) mail \<and> s_status st = ''Completed''
                         \<and> at_milestone st) sessions))"

text \<open>
  \<^verbatim>\<open>fetchPendingSurvey(email, programType)\<close>: the remote procedure first; its first row
  is returned as it is. The fallback runs when the procedure fails (\<open>rpcError\<close>) or
  returns no row.
\<close>

definition fetchPendingSurvey ::
  "bool \<Rightarrow> session list \<Rightarrow> employee list \<Rightarrow> survey_submission list \<Rightarrow> string \<Rightarrow> string option
     \<Rightarrow> PendingSurvey option"
where
  "fetchPendingSurvey rpcError sessions employees submissions mail programType =
     (case (if rpcError then [] else get_pending_survey sessions employees submissions mail) of
        r # _ \<Rightarrow> Some r
      | [] \<Rightarrow> pending_fallback sessions submissions mail programType)"


section \<open>Response Recorder\<close>

text \<open>
  An inbound callback: the method, the raw body, the two Slack headers (\<open>None\<close> when a
  header is absent), and what \<^verbatim>\<open>new URLSearchParams(body).get('payload')\<close> followed by
  \<^verbatim>\<open>JSON.parse\<close> makes of the body. Of the payload the handlers read the type, the
  actions, \<^verbatim>\<open>team.id\<close>, \<^verbatim>\<open>message.ts\<close> and \<^verbatim>\<open>channel.id\<close>; \<open>None\<close> for one of the
  last two means the \<^verbatim>\<open>message\<close> or \<^verbatim>\<open>channel\<close> object is missing.
\<close>

record click =
  c_action_id :: string
  c_block_id :: "string option"

record payload =
  pl_type :: string
  pl_actions :: "click list option"
  pl_team_id :: "string option"
  pl_message_ts :: "string option"
  pl_channel_id :: "string option"
  pl_challenge :: string

datatype parsed_body = MissingPayload | MalformedJson | Payload payload

record request =
  r_method :: string
  r_body :: string
  r_signature :: "string option"
  r_timestamp :: "string option"
  r_payload :: parsed_body

text \<open>
  The handler's surroundings: the \<^verbatim>\<open>SLACK_SIGNING_SECRET\<close> and \<^verbatim>\<open>PORTAL_URL\<close>
  variables, HMAC-SHA256 of the Web Crypto API (key, then message, giving the digest in
  lower-case hexadecimal), the clock in milliseconds, and the installations table.
\<close>

record rec_env =
  renv_secret :: "string option"
  renv_portal_url :: "string option"
  renv_hmac :: "string \<Rightarrow> string \<Rightarrow> string"
  renv_now :: int
  renv_installations :: "slack_installation list"

text \<open>One call of \<^verbatim>\<open>chat.update\<close>; \<open>u_text\<close> is the text of the one section block sent.\<close>

record slack_update =
  u_token :: string
  u_channel :: string
  u_ts :: string
  u_text :: string

record rec_state =
  rs_action_items :: "action_item list"
  rs_nudges :: "slack_nudge list"
  rs_updated :: "slack_update list"

datatype http_response = Response nat string

text \<open>\<^verbatim>\<open>verifySlackSignature\<close> of the shared Slack utilities.\<close>

definition verifySlackSignature ::
  "(string \<Rightarrow> string \<Rightarrow> string) \<Rightarrow> string \<Rightarrow> string \<Rightarrow> string \<Rightarrow> string \<Rightarrow> bool"
where
  "verifySlackSignature hmac signingSecret signature timestamp body =
     (let baseString = ''v0:'' @ timestamp @ '':'' @ body;
          computedSignature = ''v0='' @ hmac signingSecret baseString
      in computedSignature = signature)"

text \<open>
  \<^verbatim>\<open>verifySlackSignature\<close> of the self-contained handler, which first compares the
  request's timestamp with the clock (\<open>now\<close> in milliseconds). A timestamp that does not
  parse gives \<^verbatim>\<open>NaN\<close>, and \<^verbatim>\<open>NaN > 300\<close> is false.
\<close>

definition verifySlackSignature_sc ::
  "(string \<Rightarrow> string \<Rightarrow> string) \<Rightarrow> int \<Rightarrow> string \<Rightarrow> string \<Rightarrow> string \<Rightarrow> string \<Rightarrow> bool"
where
  "verifySlackSignature_sc hmac now_ms signingSecret signature timestamp body =
     (let now = now_ms div 1000
      in if (case parseInt timestamp of None \<Rightarrow> False | Some t \<Rightarrow> \<bar>now - t\<bar> > 300) then False
         else ''v0='' @ hmac signingSecret (''v0:'' @ timestamp @ '':'' @ body) = signature)"

text \<open>
  Modelled from the spec: the remote procedure \<^verbatim>\<open>record_nudge_response\<close> is not among the
  sources. Section 4.3, step 2: look up the NudgeRecord by message handle and channel
  id; if found, set status to \<^verbatim>\<open>responded\<close>, the response to the button id and the
  response timestamp to now.
\<close>

definition record_nudge_response ::
  "int \<Rightarrow> string \<Rightarrow> string \<Rightarrow> string \<Rightarrow> slack_nudge list \<Rightarrow> slack_nudge list"
where
  "record_nudge_response now p_message_ts p_channel_id p_response table =
     map (\<lambda>n. if n_message_ts n = p_message_ts \<and> n_channel_id n = p_channel_id
               then n\<lparr> n_status := ''responded'', n_response := Some p_response,
                       n_responded_at := Some now \<rparr>
               else n) table"

text \<open>
  \<^verbatim>\<open>from('action_items').update({status: 'completed', completed_at: now}).eq('id', referenceId)\<close>.
  An \<^verbatim>\<open>undefined\<close> reference id matches no row.
\<close>

definition mark_completed :: "int \<Rightarrow> string option \<Rightarrow> action_item list \<Rightarrow> action_item list" where
  "mark_completed now ref items =
     (case ref of
        None \<Rightarrow> items
      | Some r \<Rightarrow>
          map (\<lambda>a. if ai_id a = r
                    then a\<lparr> ai_status := ''completed'', ai_completed_at := Some now \<rparr>
                    else a) items)"

text \<open>
  The bot token of the team's installation: \<^verbatim>\<open>.eq('team_id', payload.team?.id).single()\<close>
  and then \<^verbatim>\<open>installation?.bot_token\<close>, which must be truthy.
\<close>

definition installation_token :: "slack_installation list \<Rightarrow> string option \<Rightarrow> string option" where
  "installation_token installations team =
     (case team of
        None \<Rightarrow> None
      | Some t \<Rightarrow>
          (case single (filter (\<lambda>i. i_team_id i = t) installations) of
             None \<Rightarrow> None
           | Some i \<Rightarrow> if truthy (i_bot_token i) then i_bot_token i else None))"

definition updateSlackMessage :: "string \<Rightarrow> string \<Rightarrow> string \<Rightarrow> string \<Rightarrow> rec_state \<Rightarrow> rec_state" where
  "updateSlackMessage token channel ts txt st =
     st\<lparr> rs_updated := rs_updated st
            @ [\<lparr> u_token = token, u_channel = channel, u_ts = ts, u_text = txt \<rparr>] \<rparr>"

text \<open>
  The acknowledgement texts of the shared handler by button id; \<open>None\<close> is the
  \<^verbatim>\<open>default\<close> branch of the switch.
\<close>

definition ack_text :: "string \<Rightarrow> string \<Rightarrow> string option" where
  "ack_text portal actionId =
     (if actionId = ''action_done'' then
        Some '':white_check_mark: *Done!* Nice work completing your action item.''
      else if actionId = ''action_in_progress'' then
        Some '':arrows_counterclockwise: *Keep going!* You're making progress. I'll check back in later.''
      else if actionId = ''action_reschedule'' then
        Some ('':calendar: Got it! Visit the <'' @ portal @ ''/actions|portal> to update your due date.'')
      else if actionId = ''need_help'' then
        Some '':speech_balloon: *Got it!* Consider bringing this up in your next coaching session. Your coach is here to help you work through blockers.''
      else if actionId = ''progress_great'' then
        Some '':rocket: *Thanks for checking in!* Awesome! Keep that momentum going!''
      else if actionId = ''progress_slow'' then
        Some '':turtle: *Thanks for checking in!* Progress is progress! Every step counts.''
      else if actionId = ''progress_stuck'' then
        Some '':construction: *Thanks for checking in!* That's okay - bring this to your next session. Your coach can help.''
      else None)"

text \<open>
  The switch of the shared handler for one click. Every known button records the
  response and updates the message; \<^verbatim>\<open>action_done\<close> first marks the action item. Reading
  \<^verbatim>\<open>message.ts\<close> or \<^verbatim>\<open>channel.id\<close> of a missing object throws; the handler's
  \<^verbatim>\<open>catch\<close> ends the request there, after the action item was written.
\<close>

definition handle_click ::
  "rec_env \<Rightarrow> string \<Rightarrow> payload \<Rightarrow> click \<Rightarrow> rec_state \<Rightarrow> rec_state"
where
  "handle_click env token p action st =
     (let actionId = c_action_id action;
          blockId = or_else (c_block_id action) [];
          ref = referenceId blockId
      in case ack_text (or_else (renv_portal_url env) ''http://localhost:5173'') actionId of
           None \<Rightarrow> st
         | Some txt \<Rightarrow>
             (let st1 = (if actionId = ''action_done''
                         then st\<lparr> rs_action_items :=
                                    mark_completed (renv_now env) ref (rs_action_items st) \<rparr>
                         else st)
              in case (pl_message_ts p, pl_channel_id p) of
                   (Some ts, Some ch) \<Rightarrow>
                     updateSlackMessage token ch ts txt
                       (st1\<lparr> rs_nudges :=
                               record_nudge_response (renv_now env) ts ch actionId (rs_nudges st1) \<rparr>)
                 | _ \<Rightarrow> st1))"

text \<open>
  The shared handler \<^verbatim>\<open>slack-interactions\<close>. \<^verbatim>\<open>getEnvVar\<close> throws when the secret is
  unset or empty; that and a body that is not JSON end in the handler's \<^verbatim>\<open>catch\<close>,
  which answers 200.
\<close>

definition slack_interactions :: "rec_env \<Rightarrow> request \<Rightarrow> rec_state \<Rightarrow> http_response \<times> rec_state" where
  "slack_interactions env req st =
     (if r_method req \<noteq> ''POST'' then (Response 405 ''Method not allowed'', st)
      else
        (let signature = or_else (r_signature req) [];
             timestamp = or_else (r_timestamp req) []
         in if \<not> truthy (renv_secret env) then (Response 200 [], st)
            else if \<not> verifySlackSignature (renv_hmac env) (the (renv_secret env))
                        signature timestamp (r_body req)
            then (Response 401 ''Invalid signature'', st)
            else
              (case r_payload req of
                 MissingPayload \<Rightarrow> (Response 400 ''Missing payload'', st)
               | MalformedJson \<Rightarrow> (Response 200 [], st)
               | Payload p \<Rightarrow>
                   if pl_type p = ''url_verification'' then (Response 200 (pl_challenge p), st)
                   else if pl_type p = ''block_actions'' then
                     (case pl_actions p of
                        Some (action # _) \<Rightarrow>
                          (case installation_token (renv_installations env) (pl_team_id p) of
                             None \<Rightarrow> (Response 200 [], st)
                           | Some token \<Rightarrow> (Response 200 [], handle_click env token p action st))
                      | _ \<Rightarrow> (Response 200 [], st))
                   else (Response 200 [], st))))"

text \<open>The acknowledgement texts of the self-contained handler.\<close>

definition ack_text_sc :: "string \<Rightarrow> string \<Rightarrow> string option" where
  "ack_text_sc portal actionId =
     (if actionId = ''action_done'' then
        Some '':white_check_mark: *Done!* Nice work completing your action item.''
      else if actionId = ''action_in_progress'' then
        Some '':arrows_counterclockwise: *Keep going!* You're making progress.''
      else if actionId = ''action_reschedule'' then
        Some ('':calendar: Visit the <'' @ portal @ ''/actions|portal> to update your due date.'')
      else if actionId = ''need_help'' then
        Some '':speech_balloon: Consider bringing this up in your next coaching session.''
      else if actionId = ''progress_great'' then
        Some '':rocket: *Awesome!* Keep that momentum going!''
      else if actionId = ''progress_slow'' then
        Some '':turtle: *Progress is progress!* Every step counts.''
      else if actionId = ''progress_stuck'' then
        Some '':construction: *That's okay* - bring this to your next session. Your coach can help.''
      else None)"

text \<open>
  The self-contained handler records the response before the switch, for any button
  id, when the message handle and the channel id are there; \<^verbatim>\<open>action_done\<close> writes the
  action item only for a truthy reference id.
\<close>

definition handle_click_sc ::
  "rec_env \<Rightarrow> string \<Rightarrow> payload \<Rightarrow> click \<Rightarrow> rec_state \<Rightarrow> rec_state"
where
  "handle_click_sc env token p action st =
     (let actionId = c_action_id action;
          blockId = or_else (c_block_id action) [];
          ref = referenceId blockId;
          st1 = (if truthy (pl_message_ts p) \<and> truthy (pl_channel_id p)
                 then st\<lparr> rs_nudges :=
                            record_nudge_response (renv_now env) (the (pl_message_ts p))
                              (the (pl_channel_id p)) actionId (rs_nudges st) \<rparr>
                 else st)
      in case ack_text_sc (or_else (renv_portal_url env) ''https://my.boon-health.com'') actionId of
           None \<Rightarrow> st1
         | Some txt \<Rightarrow>
             (let st2 = (if actionId = ''action_done'' \<and> truthy ref
                         then st1\<lparr> rs_action_items :=
                                     mark_completed (renv_now env) ref (rs_action_items st1) \<rparr>
                         else st1)
              in case (pl_message_ts p, pl_channel_id p) of
                   (Some ts, Some ch) \<Rightarrow> updateSlackMessage token ch ts txt st2
                 | _ \<Rightarrow> st2))"

text \<open>
  The self-contained handler \<^verbatim>\<open>slack-interactions\<close>: the signature is checked only
  when a signing secret is set.
\<close>

definition slack_interactions_sc :: "rec_env \<Rightarrow> request \<Rightarrow> rec_state \<Rightarrow> http_response \<times> rec_state" where
  "slack_interactions_sc env req st =
     (if r_method req \<noteq> ''POST'' then (Response 405 ''Method not allowed'', st)
      else
        (let signingSecret = or_else (renv_secret env) [];
             signature = or_else (r_signature req) [];
             timestamp = or_else (r_timestamp req) []
         in if signingSecret \<noteq> []
               \<and> \<not> verifySlackSignature_sc (renv_hmac env) (renv_now env) signingSecret
                       signature timestamp (r_body req)
            then (Response 401 ''Invalid signature'', st)
            else
              (case r_payload req of
                 MissingPayload \<Rightarrow> (Response 400 ''Missing payload'', st)
               | MalformedJson \<Rightarrow> (Response 200 [], st)
               | Payload p \<Rightarrow>
                   if pl_type p = ''url_verification'' then (Response 200 (pl_challenge p), st)
                   else if pl_type p = ''block_actions'' then
                     (case pl_actions p of
                        Some (action # _) \<Rightarrow>
                          (case installation_token (renv_installations env) (pl_team_id p) of
                             None \<Rightarrow> (Response 200 [], st)
                           | Some token \<Rightarrow> (Response 200 [], handle_click_sc env token p action st))
                      | _ \<Rightarrow> (Response 200 [], st))
                   else (Response 200 [], st))))"


section \<open>Concrete scenarios\<close>

text \<open>
  Inputs on which the definitions are run below. The handlers only compare the digest
  they compute with the one in the header, so any function can stand for HMAC-SHA256
  in a run.
\<close>

definition stand_in_hmac :: "string \<Rightarrow> string \<Rightarrow> string" where
  "stand_in_hmac key msg = ''5f2b'' @ key @ msg"

text \<open>
  A click on the \<^verbatim>\<open>Done\<close> button of the reminder for action item \<^verbatim>\<open>a1\<close>, signed
  at second 1700000000 with the configured secret.
\<close>

definition click_body :: string where
  "click_body = ''payload=%7B%7D''"

definition click_request :: request where
  "click_request =
     \<lparr> r_method = ''POST'', r_body = click_body,
       r_signature = Some (''v0='' @ stand_in_hmac ''s3cr3t'' (''v0:1700000000:'' @ click_body)),
       r_timestamp = Some ''1700000000'',
       r_payload = Payload
         \<lparr> pl_type = ''block_actions'',
           pl_actions = Some [\<lparr> c_action_id = ''action_done'', c_block_id = Some ''action_a1'' \<rparr>],
           pl_team_id = Some ''T1'', pl_message_ts = Some ''1699990000.000100'',
           pl_channel_id = Some ''D1'', pl_challenge = [] \<rparr> \<rparr>"

text \<open>The handler's surroundings when the clock shows \<open>now\<close> milliseconds.\<close>

definition click_env :: "int \<Rightarrow> rec_env" where
  "click_env now =
     \<lparr> renv_secret = Some ''s3cr3t'', renv_portal_url = None, renv_hmac = stand_in_hmac,
       renv_now = now,
       renv_installations = [\<lparr> i_team_id = ''T1'', i_bot_token = Some ''xoxb-1'' \<rparr>] \<rparr>"

definition click_state :: rec_state where
  "click_state =
     \<lparr> rs_action_items =
         [\<lparr> ai_id = ''a1'', ai_email = ''ann@example.com'', ai_coach_name = None,
            ai_action_text = ''Read chapter 2'', ai_due_date = Some 19676,
            ai_status = ''pending'', ai_completed_at = None \<rparr>,
          \<lparr> ai_id = ''a2'', ai_email = ''ann@example.com'', ai_coach_name = None,
            ai_action_text = ''Book the next session'', ai_due_date = Some 19677,
            ai_status = ''pending'', ai_completed_at = None \<rparr>],
       rs_nudges =
         [\<lparr> n_employee_email = ''ann@example.com'', n_nudge_type = ''action_reminder'',
            n_reference_id = ''a1'', n_reference_type = ''action_item'',
            n_message_ts = ''1699990000.000100'', n_channel_id = ''D1'',
            n_sent_at = 1699990000, n_status = ''sent'', n_response = None,
            n_responded_at = None \<rparr>],
       rs_updated = [] \<rparr>"


text \<open>
  An employee with three completed milestone sessions, the first of which has a
  submission; and a GROW employee with one completed milestone session and no
  submission at all.
\<close>

definition milestone_session :: "string \<Rightarrow> string \<Rightarrow> string \<Rightarrow> int \<Rightarrow> int \<Rightarrow> string \<Rightarrow> session" where
  "milestone_session sid eid mail day ordinal program =
     \<lparr> s_id = sid, s_employee_id = eid, s_employee_email = mail, s_session_date = day,
       s_appointment_number = Some ordinal, s_coach_name = Some ''Cy Coach'',
       s_program_name = Some program, s_status = ''Completed'', s_goals = None \<rparr>"

definition survey_sessions :: "session list" where
  "survey_sessions =
     [milestone_session ''s1'' ''e1'' ''ann@example.com'' 19500 1 ''SCALE'',
      milestone_session ''s3'' ''e1'' ''ann@example.com'' 19530 3 ''SCALE'',
      milestone_session ''s6'' ''e1'' ''ann@example.com'' 19590 6 ''SCALE'',
      milestone_session ''g1'' ''e2'' ''bob@example.com'' 19600 1 ''GROW'']"

definition survey_employees :: "employee list" where
  "survey_employees =
     [\<lparr> e_id = ''e1'', e_company_email = Some ''ann@example.com'', e_first_name = Some ''Ann'',
        e_program = Some ''SCALE'' \<rparr>,
      \<lparr> e_id = ''e2'', e_company_email = Some ''bob@example.com'', e_first_name = Some ''Bob'',
        e_program = Some ''GROW'' \<rparr>]"

definition submitted_surveys :: "survey_submission list" where
  "submitted_surveys =
     [\<lparr> ss_id = ''u1'', ss_email = ''ann@example.com'', ss_survey_type = Some ''scale_feedback'',
        ss_session_id = Some ''s1'' \<rparr>]"

text \<open>
  A reminder template that mentions the portal, and the variables the action-item
  section passes to the renderer.
\<close>

definition reminder_template :: string where
  "reminder_template =
     ''[Hi {{first_name}}, {{coach_name}} asked: {{action_text}} by {{due_date}}. See {{portal_url}}/actions]''"

definition reminder_variables :: variables where
  "reminder_variables =
     [(''first_name'', Some ''Ann''), (''coach_name'', Some ''Cy Coach''),
      (''action_text'', Some ''Read chapter 2''), (''due_date'', Some ''*Tomorrow*''),
      (''action_id'', Some ''a1'')]"


text \<open>
  A scheduler run on day 19676: one action item due the next day, one session completed
  three days before with goals, both of an employee whose connection has the given
  \<^verbatim>\<open>nudge_enabled\<close> flag and frequency mode; her local hour equals her preferred hour,
  templates exist, and the messaging API accepts every message.
\<close>

definition scenario_connection :: "bool \<Rightarrow> string \<Rightarrow> SlackConnection" where
  "scenario_connection enabled frequency =
     \<lparr> slack_user_id = ''U1'', slack_dm_channel_id = ''D1'', nudge_enabled = enabled,
       nudge_frequency = frequency, preferred_time = Some ''09:00:00'',
       timezone = ''America/New_York'', bot_token = ''xoxb-1'' \<rparr>"

definition scenario_env :: "bool \<Rightarrow> string \<Rightarrow> sched_env" where
  "scenario_env enabled frequency =
     \<lparr> env_connection =
         (\<lambda>mail. if toLowerCase mail = ''ann@example.com''
                  then Some [scenario_connection enabled frequency] else Some []),
       env_user_time = (\<lambda>tz. Some ''9''),
       env_post = (\<lambda>msg. PostResult True (Some ''1700000000.000200'')),
       env_json_valid = (\<lambda>json. True),
       env_inherited = (\<lambda>key. None),
       env_format_due = (\<lambda>day. ''*Tomorrow*''),
       env_portal_url = None,
       env_first_name = (\<lambda>mail. ''Ann''),
       env_now = 1700000000 \<rparr>"

definition scenario_action :: ActionItem where
  "scenario_action =
     \<lparr> action_id = ''a1'', email = ''ann@example.com'', action_text = ''Read chapter 2'',
       due_date = 19677, coach_name = Some ''Cy Coach'', first_name = ''Ann'' \<rparr>"

definition scenario_templates :: "NudgeTemplate list" where
  "scenario_templates =
     [\<lparr> t_nudge_type = ''action_reminder'', t_blocks = Some reminder_template,
        t_is_default = True \<rparr>,
      \<lparr> t_nudge_type = ''goal_checkin'',
        t_blocks = Some ''[Hi {{first_name}}, how are your goals going: {{goals}}]'',
        t_is_default = True \<rparr>]"

definition scenario_tables :: sched_tables where
  "scenario_tables =
     \<lparr> action_items =
         [\<lparr> ai_id = ''a1'', ai_email = ''ann@example.com'', ai_coach_name = Some ''Cy Coach'',
            ai_action_text = ''Read chapter 2'', ai_due_date = Some 19677,
            ai_status = ''pending'', ai_completed_at = None \<rparr>],
       session_tracking =
         [\<lparr> s_id = ''g1'', s_employee_id = ''e1'', s_employee_email = ''ann@example.com'',
            s_session_date = 19673, s_appointment_number = Some 2,
            s_coach_name = Some ''Cy Coach'', s_program_name = Some ''SCALE'',
            s_status = ''Completed'', s_goals = Some ''Delegate more'' \<rparr>],
       employee_manager =
         [\<lparr> e_id = ''e1'', e_company_email = Some ''ann@example.com'',
            e_first_name = Some ''Ann'', e_program = Some ''SCALE'' \<rparr>],
       nudge_templates = scenario_templates \<rparr>"

definition nothing_sent :: sched_state where
  "nothing_sent =
     \<lparr> nudges = [], posted = [], action_reminders_sent = 0, goal_checkins_sent = 0,
       session_preps_sent = 0, errors = 0 \<rparr>"


text \<open>
  The scheduler scenario with the connection's preferred time and the hour printed for
  its time zone set as given.
\<close>

definition gate_env :: "string option \<Rightarrow> string \<Rightarrow> sched_env" where
  "gate_env preferred printed =
     (scenario_env True ''smart'')
       \<lparr> env_connection :=
           (\<lambda>mail. if toLowerCase mail = ''ann@example.com''
                    then Some [(scenario_connection True ''smart'')\<lparr> preferred_time := preferred \<rparr>]
                    else Some []),
         env_user_time := (\<lambda>tz. Some printed) \<rparr>"


section \<open>Properties of the timing gate\<close>

lemma digit_val_char:
  "digit_val d = Some a \<Longrightarrow>
     d \<noteq> CHR '':'' \<and> d \<noteq> CHR ''-'' \<and> d \<noteq> CHR ''+'' \<and> \<not> js_space d"
  by (auto simp: digit_val_def js_space_def split: if_splits)

lemma split_hour_field:
  "d1 \<noteq> CHR '':'' \<Longrightarrow> d2 \<noteq> CHR '':'' \<Longrightarrow>
     hd (split CHR '':'' (d1 # d2 # CHR '':'' # mm)) = [d1, d2]"
  by simp

lemma parseInt10_two_digits:
  assumes "digit_val d1 = Some a" "digit_val d2 = Some b"
  shows "parseInt10 [d1, d2] = Some (10 * a + b)"
  using assms digit_val_char[OF assms(1)] digit_val_char[OF assms(2)]
  by (simp add: parseInt10_def with_sign_def parse_digits_def)

text \<open>
  For a preferred time of the form HH:MM the gate is open exactly when the printed hour
  and HH differ by at most one; the minutes \<open>mm\<close> play no part. When the time zone
  cannot be resolved (\<open>None\<close>) the gate is open. Both variants of the scheduler agree
  on these inputs.
\<close>

lemma timing_gate_hour_window:
  "(digit_val d1 = Some a \<and> digit_val d2 = Some b \<and> parseInt10 userTime = Some h \<longrightarrow>
      isAppropriateTime (Some (d1 # d2 # CHR '':'' # mm)) (Some userTime)
        = (\<bar>h - (10 * a + b)\<bar> \<le> 1)
      \<and> isAppropriateTime_sc (Some (d1 # d2 # CHR '':'' # mm)) (Some userTime)
        = (\<bar>h - (10 * a + b)\<bar> \<le> 1))
   \<and> \<not> isAppropriateTime (Some ''14:00'') (Some ''16'')
   \<and> isAppropriateTime (Some ''14:00'') (Some ''15'')
   \<and> \<not> isAppropriateTime_sc (Some ''14:00'') (Some ''16'')
   \<and> isAppropriateTime_sc (Some ''14:00'') (Some ''15'')
   \<and> isAppropriateTime preferredTime None
   \<and> isAppropriateTime_sc preferredTime None"
proof -
  have general:
    "isAppropriateTime (Some (d1 # d2 # CHR '':'' # mm)) (Some userTime)
       = (\<bar>h - (10 * a + b)\<bar> \<le> 1)
     \<and> isAppropriateTime_sc (Some (d1 # d2 # CHR '':'' # mm)) (Some userTime)
       = (\<bar>h - (10 * a + b)\<bar> \<le> 1)"
    if d: "digit_val d1 = Some a" "digit_val d2 = Some b" and u: "parseInt10 userTime = Some h"
  proof -
    have f: "hd (split CHR '':'' (d1 # d2 # CHR '':'' # mm)) = [d1, d2]"
      using digit_val_char[OF d(1)] digit_val_char[OF d(2)] by (simp add: split_hour_field)
    have p: "parseInt10 [d1, d2] = Some (10 * a + b)"
      by (rule parseInt10_two_digits[OF d])
    show ?thesis
      unfolding isAppropriateTime_def isAppropriateTime_sc_def
      by (simp only: f p u option.case Let_def hours_close_def prod.case list.simps
            if_False simp_thms)
  qed
  have c1: "\<not> isAppropriateTime (Some ''14:00'') (Some ''16'')" by code_simp
  have c2: "isAppropriateTime (Some ''14:00'') (Some ''15'')" by code_simp
  have c3: "\<not> isAppropriateTime_sc (Some ''14:00'') (Some ''16'')" by code_simp
  have c4: "isAppropriateTime_sc (Some ''14:00'') (Some ''15'')" by code_simp
  have o: "isAppropriateTime preferredTime None \<and> isAppropriateTime_sc preferredTime None"
    by (simp add: isAppropriateTime_def isAppropriateTime_sc_def)
  from general c1 c2 c3 c4 o show ?thesis by blast
qed

lemma timing_gate_hour_window_example:
  "digit_val CHR ''0'' = Some 0 \<and> digit_val CHR ''9'' = Some 9 \<and> parseInt10 ''10'' = Some 10
   \<and> isAppropriateTime (Some ''09:30'') (Some ''10'')
   \<and> isAppropriateTime_sc (Some ''09:30'') (Some ''10'')"
proof -
  have d0: "digit_val CHR ''0'' = Some 0" by (simp add: digit_val_def)
  have d9: "digit_val CHR ''9'' = Some 9" by (simp add: digit_val_def)
  have u: "parseInt10 ''10'' = Some 10" by code_simp
  from timing_gate_hour_window[of "CHR ''0''" 0 "CHR ''9''" 9 "''10''" 10 "''30''" None] d0 d9 u
  show ?thesis by simp
qed

text \<open>
  An open gate, for any preferred time that is present: the printed hour and the hour
  field of the preferred time both parse and differ by at most one. The self-contained
  variant reads a missing or empty hour field as 9.
\<close>

lemma gate_open_within_window:
  assumes "isAppropriateTime (Some pt) (Some printed)"
  shows "\<exists>h p. parseInt10 printed = Some h
           \<and> parseInt10 (hd (split CHR '':'' pt)) = Some p \<and> \<bar>h - p\<bar> \<le> 1"
proof -
  from assms have "hours_close (parseInt10 printed) (parseInt10 (hd (split CHR '':'' pt)))"
    by (simp add: isAppropriateTime_def)
  then show ?thesis
    by (cases "parseInt10 printed"; cases "parseInt10 (hd (split CHR '':'' pt))")
       (simp_all add: hours_close_def)
qed

lemma gate_sc_open_within_window:
  assumes "isAppropriateTime_sc preferred (Some printed)"
  shows "\<exists>h p. parseInt10 printed = Some h \<and> \<bar>h - p\<bar> \<le> 1
           \<and> parseInt10
                 (let field = (case preferred of None \<Rightarrow> [] | Some pt \<Rightarrow> hd (split CHR '':'' pt))
                  in if field = [] then ''9'' else field) = Some p"
proof -
  define hourStr where
    "hourStr = (let field = (case preferred of None \<Rightarrow> [] | Some pt \<Rightarrow> hd (split CHR '':'' pt))
                in if field = [] then ''9'' else field)"
  from assms have "hours_close (parseInt10 printed) (parseInt10 hourStr)"
    by (simp add: isAppropriateTime_sc_def hourStr_def Let_def)
  then have "\<exists>h p. parseInt10 printed = Some h \<and> \<bar>h - p\<bar> \<le> 1 \<and> parseInt10 hourStr = Some p"
    by (cases "parseInt10 printed"; cases "parseInt10 hourStr") (simp_all add: hours_close_def)
  then show ?thesis unfolding hourStr_def .
qed

text \<open>
  Preferred hour 23 against a printed hour that reads as 0 (\<^verbatim>\<open>0\<close> or \<^verbatim>\<open>00\<close>): the
  gate is closed in both variants.
\<close>

lemma gate_closed_at_midnight:
  assumes "parseInt10 printed = Some 0"
  shows "parseInt10 (hd (split CHR '':'' (''23:'' @ mm))) = Some 23"
    and "\<not> isAppropriateTime (Some (''23:'' @ mm)) (Some printed)"
    and "\<not> isAppropriateTime_sc (Some (''23:'' @ mm)) (Some printed)"
proof -
  have f: "hd (split CHR '':'' (''23:'' @ mm)) = ''23''" by simp
  have p: "parseInt10 ''23'' = Some 23" by code_simp
  have h: "\<not> hours_close (Some 0) (Some 23)" by (simp add: hours_close_def)
  show "parseInt10 (hd (split CHR '':'' (''23:'' @ mm))) = Some 23" by (simp only: f p)
  show "\<not> isAppropriateTime (Some (''23:'' @ mm)) (Some printed)"
    unfolding isAppropriateTime_def by (simp only: option.case f p assms h not_False_eq_True)
  show "\<not> isAppropriateTime_sc (Some (''23:'' @ mm)) (Some printed)"
    unfolding isAppropriateTime_sc_def
    by (simp only: option.case f p assms h Let_def list.simps if_False not_False_eq_True)
qed

lemma open_gate_cases:
  assumes "isAppropriateTime preferred printed"
  shows "preferred = None \<or> printed = None
         \<or> (\<exists>pt ut h p. preferred = Some pt \<and> printed = Some ut
               \<and> parseInt10 ut = Some h \<and> parseInt10 (hd (split CHR '':'' pt)) = Some p
               \<and> \<bar>h - p\<bar> \<le> 1)"
proof (cases preferred)
  case None
  then show ?thesis by simp
next
  case (Some pt)
  show ?thesis
  proof (cases printed)
    case None
    then show ?thesis by simp
  next
    case (Some ut)
    with \<open>preferred = Some pt\<close> assms have "isAppropriateTime (Some pt) (Some ut)" by simp
    from gate_open_within_window[OF this] \<open>preferred = Some pt\<close> Some
    show ?thesis by simp
  qed
qed

lemma open_gate_sc_cases:
  assumes "isAppropriateTime_sc preferred printed"
  shows "printed = None
         \<or> (\<exists>ut h p. printed = Some ut \<and> parseInt10 ut = Some h \<and> \<bar>h - p\<bar> \<le> 1
               \<and> parseInt10
                    (let field = (case preferred of None \<Rightarrow> []
                                  | Some pt \<Rightarrow> hd (split CHR '':'' pt))
                     in if field = [] then ''9'' else field) = Some p)"
proof (cases printed)
  case None
  then show ?thesis by simp
next
  case (Some ut)
  with assms have "isAppropriateTime_sc preferred (Some ut)" by simp
  from gate_sc_open_within_window[OF this] Some show ?thesis by simp
qed


section \<open>Properties of the Response Recorder\<close>

lemma split_field:
  "sep \<notin> set a \<Longrightarrow> split sep (a @ sep # r) = a # split sep r"
  by (induction a) auto

lemma referenceId_action:
  assumes "CHR ''_'' \<notin> set a"
  shows "referenceId (''action_'' @ a @ CHR ''_'' # b) = Some a"
proof -
  have "split CHR ''_'' (''action'' @ CHR ''_'' # (a @ CHR ''_'' # b))
          = ''action'' # split CHR ''_'' (a @ CHR ''_'' # b)"
    by (rule split_field) simp
  also have "split CHR ''_'' (a @ CHR ''_'' # b) = a # split CHR ''_'' b"
    by (rule split_field[OF assms])
  finally show ?thesis
    by (simp add: referenceId_def at_index_def)
qed

lemma ack_text_done: "ack_text portal ''action_done'' \<noteq> None"
  by (simp add: ack_text_def)

lemma ack_text_sc_done: "ack_text_sc portal ''action_done'' \<noteq> None"
  by (simp add: ack_text_sc_def)

lemma handle_click_items:
  "rs_action_items (handle_click env token p action st)
     = (if c_action_id action = ''action_done''
        then mark_completed (renv_now env) (referenceId (or_else (c_block_id action) []))
               (rs_action_items st)
        else rs_action_items st)"
proof (cases "ack_text (or_else (renv_portal_url env) ''http://localhost:5173'') (c_action_id action)")
  case None
  then have "c_action_id action \<noteq> ''action_done''"
    using ack_text_done by metis
  with None show ?thesis by (simp add: handle_click_def Let_def)
next
  case (Some ack)
  then show ?thesis
    by (cases "pl_message_ts p"; cases "pl_channel_id p")
       (simp_all add: handle_click_def Let_def updateSlackMessage_def)
qed

lemma handle_click_sc_items:
  "rs_action_items (handle_click_sc env token p action st)
     = (if c_action_id action = ''action_done''
           \<and> truthy (referenceId (or_else (c_block_id action) []))
        then mark_completed (renv_now env) (referenceId (or_else (c_block_id action) []))
               (rs_action_items st)
        else rs_action_items st)"
proof (cases "ack_text_sc (or_else (renv_portal_url env) ''https://my.boon-health.com'') (c_action_id action)")
  case None
  then have "c_action_id action \<noteq> ''action_done''"
    using ack_text_sc_done by metis
  with None show ?thesis by (simp add: handle_click_sc_def Let_def)
next
  case (Some ack)
  then show ?thesis
    by (cases "pl_message_ts p"; cases "pl_channel_id p")
       (simp_all add: handle_click_sc_def Let_def updateSlackMessage_def)
qed

lemma mark_completed_keeps_other:
  assumes "x \<in> set items" and "ai_id x \<noteq> r"
  shows "x \<in> set (mark_completed t (Some r) items)"
proof -
  define f :: "action_item \<Rightarrow> action_item" where "f = (\<lambda>a. if ai_id a = r
              then a\<lparr> ai_status := ''completed'', ai_completed_at := Some t \<rparr> else a)"
  have fx: "f x = x" using assms(2) by (simp add: f_def)
  have "f x \<in> f ` set items" using assms(1) by (rule imageI)
  then have "x \<in> set (map f items)" by (simp only: fx set_map)
  then show ?thesis by (simp only: mark_completed_def option.case f_def)
qed

text \<open>
  Claim C10. The reference id of a click is the second field of the block id split at
  underscores. For a block id \<open>action_<id>\<close> whose id contains an underscore, only the
  part \<open>a\<close> of the id in front of its first underscore is used: the \<^verbatim>\<open>action_done\<close>
  update is applied to the rows whose id is \<open>a\<close>, and a row whose id is the full id is
  left as it was. (The self-contained handler writes nothing when \<open>a\<close> is empty.)
\<close>

theorem reference_id_second_field_only:
  assumes "CHR ''_'' \<notin> set a"
      and "c_action_id action = ''action_done''"
      and "c_block_id action = Some (''action_'' @ a @ CHR ''_'' # b)"
  shows "referenceId (''action_'' @ a @ CHR ''_'' # b) = Some a
     \<and> a \<noteq> a @ CHR ''_'' # b
     \<and> rs_action_items (handle_click env token p action st)
         = mark_completed (renv_now env) (Some a) (rs_action_items st)
     \<and> rs_action_items (handle_click_sc env token p action st)
         = (if a = [] then rs_action_items st
            else mark_completed (renv_now env) (Some a) (rs_action_items st))
     \<and> (\<forall>x \<in> set (rs_action_items st). ai_id x = a @ CHR ''_'' # b \<longrightarrow>
           x \<in> set (rs_action_items (handle_click env token p action st))
         \<and> x \<in> set (rs_action_items (handle_click_sc env token p action st)))"
proof -
  have r: "referenceId (''action_'' @ a @ CHR ''_'' # b) = Some a"
    by (rule referenceId_action[OF assms(1)])
  have ne: "a \<noteq> a @ CHR ''_'' # b" by simp
  have o: "or_else (c_block_id action) [] = ''action_'' @ a @ CHR ''_'' # b"
    using assms(3) by (simp add: or_else_def)
  have h1: "rs_action_items (handle_click env token p action st)
         = mark_completed (renv_now env) (Some a) (rs_action_items st)"
    unfolding handle_click_items o r using assms(2) by simp
  have h2: "rs_action_items (handle_click_sc env token p action st)
         = (if a = [] then rs_action_items st
            else mark_completed (renv_now env) (Some a) (rs_action_items st))"
    unfolding handle_click_sc_items o r using assms(2) by (simp add: truthy_def)
  have keep: "x \<in> set (rs_action_items (handle_click env token p action st))
         \<and> x \<in> set (rs_action_items (handle_click_sc env token p action st))"
    if "x \<in> set (rs_action_items st)" "ai_id x = a @ CHR ''_'' # b" for x
  proof -
    from that(2) have "ai_id x \<noteq> a" by simp
    from mark_completed_keeps_other[OF that(1) this]
    show ?thesis unfolding h1 h2 using that(1) by simp
  qed
  show ?thesis
  proof (intro conjI ballI impI)
    show "referenceId (''action_'' @ a @ CHR ''_'' # b) = Some a" by (rule r)
    show "a \<noteq> a @ CHR ''_'' # b" by (rule ne)
    show "rs_action_items (handle_click env token p action st)
         = mark_completed (renv_now env) (Some a) (rs_action_items st)" by (rule h1)
    show "rs_action_items (handle_click_sc env token p action st)
         = (if a = [] then rs_action_items st
            else mark_completed (renv_now env) (Some a) (rs_action_items st))" by (rule h2)
  next
    fix x assume "x \<in> set (rs_action_items st)" "ai_id x = a @ CHR ''_'' # b"
    then show "x \<in> set (rs_action_items (handle_click env token p action st))"
      by (rule keep[THEN conjunct1])
  next
    fix x assume "x \<in> set (rs_action_items st)" "ai_id x = a @ CHR ''_'' # b"
    then show "x \<in> set (rs_action_items (handle_click_sc env token p action st))"
      by (rule keep[THEN conjunct2])
  qed
qed


theorem reference_id_second_field_only_witness:
  "CHR ''_'' \<notin> set ''a1''
   \<and> referenceId ''action_a1_x'' = Some ''a1''
   \<and> map (\<lambda>x. (ai_id x, ai_status x))
        (rs_action_items
          (handle_click (click_env 1700000005000) ''xoxb-1''
             \<lparr> pl_type = ''block_actions'', pl_actions = None, pl_team_id = Some ''T1'',
               pl_message_ts = Some ''1699990000.000100'', pl_channel_id = Some ''D1'',
               pl_challenge = [] \<rparr>
             \<lparr> c_action_id = ''action_done'', c_block_id = Some ''action_a1_x'' \<rparr> click_state))
       = [(''a1'', ''completed''), (''a2'', ''pending'')]"
proof -
  let ?p = "\<lparr> pl_type = ''block_actions'', pl_actions = None, pl_team_id = Some ''T1'',
               pl_message_ts = Some ''1699990000.000100'', pl_channel_id = Some ''D1'',
               pl_challenge = [] \<rparr>"
  let ?c = "\<lparr> c_action_id = ''action_done'', c_block_id = Some ''action_a1_x'' \<rparr>"
  have h: "CHR ''_'' \<notin> set ''a1''" by simp
  have h2: "c_action_id ?c = ''action_done''" by simp
  have h3: "c_block_id ?c = Some (''action_'' @ ''a1'' @ CHR ''_'' # ''x'')" by simp
  note t = reference_id_second_field_only[OF h h2 h3,
             of "click_env 1700000005000" "''xoxb-1''" ?p click_state]
  have r: "referenceId ''action_a1_x'' = Some ''a1''"
    using t[THEN conjunct1] by simp
  have i: "rs_action_items (handle_click (click_env 1700000005000) ''xoxb-1'' ?p ?c click_state)
             = mark_completed (renv_now (click_env 1700000005000)) (Some ''a1'')
                 (rs_action_items click_state)"
    by (rule t[THEN conjunct2, THEN conjunct2, THEN conjunct1])
  have e: "map (\<lambda>x. (ai_id x, ai_status x))
             (mark_completed (renv_now (click_env 1700000005000)) (Some ''a1'')
                (rs_action_items click_state))
           = [(''a1'', ''completed''), (''a2'', ''pending'')]" by code_simp
  from h r e show ?thesis by (simp only: i simp_thms)
qed

lemma mark_completed_ids: "map ai_id (mark_completed t r items) = map ai_id items"
  by (cases r) (simp_all add: mark_completed_def comp_def)

lemma mark_completed_twice:
  "map ai_status (mark_completed t2 r (mark_completed t1 r items))
     = map ai_status (mark_completed t1 r items)"
  by (cases r) (simp_all add: mark_completed_def comp_def)

lemma mark_completed_status:
  assumes "x \<in> set (mark_completed t (Some r) items)" and "ai_id x = r"
  shows "ai_status x = ''completed''"
proof -
  from assms(1) obtain a where a: "a \<in> set items"
    and x: "x = (if ai_id a = r
                 then a\<lparr> ai_status := ''completed'', ai_completed_at := Some t \<rparr> else a)"
    unfolding mark_completed_def option.case set_map by (rule imageE)
  show ?thesis
  proof (cases "ai_id a = r")
    case True
    with x show ?thesis by simp
  next
    case False
    with x assms(2) show ?thesis by simp
  qed
qed

lemma two_deliveries:
  assumes i1: "items1 = mark_completed t1 (Some r) items0"
      and i2: "items2 = items1 \<or> items2 = mark_completed t2 (Some r) items1"
  shows "(\<forall>x \<in> set items1. ai_id x = r \<longrightarrow> ai_status x = ''completed'')
       \<and> (\<forall>x \<in> set items2. ai_id x = r \<longrightarrow> ai_status x = ''completed'')
       \<and> map ai_status items2 = map ai_status items1
       \<and> map ai_id items2 = map ai_id items0
       \<and> map ai_id items1 = map ai_id items0"
proof (intro conjI ballI impI)
  fix x assume "x \<in> set items1" "ai_id x = r"
  then show "ai_status x = ''completed''"
    unfolding i1 by (rule mark_completed_status)
next
  fix x assume x: "x \<in> set items2" "ai_id x = r"
  from i2 show "ai_status x = ''completed''"
  proof
    assume "items2 = items1"
    with x(1) have "x \<in> set (mark_completed t1 (Some r) items0)" by (simp only: i1)
    then show ?thesis using x(2) by (rule mark_completed_status)
  next
    assume "items2 = mark_completed t2 (Some r) items1"
    with x(1) have "x \<in> set (mark_completed t2 (Some r) items1)" by simp
    then show ?thesis using x(2) by (rule mark_completed_status)
  qed
next
  from i2 show "map ai_status items2 = map ai_status items1"
  proof
    assume "items2 = items1" then show ?thesis by simp
  next
    assume "items2 = mark_completed t2 (Some r) items1"
    then show ?thesis by (simp only: i1 mark_completed_twice)
  qed
next
  show c: "map ai_id items1 = map ai_id items0" by (simp only: i1 mark_completed_ids)
  from i2 show "map ai_id items2 = map ai_id items0"
  proof
    assume "items2 = items1" with c show ?thesis by simp
  next
    assume "items2 = mark_completed t2 (Some r) items1"
    with c show ?thesis by (simp only: mark_completed_ids)
  qed
qed


lemma slack_interactions_items:
  "rs_action_items (snd (slack_interactions env req st)) = rs_action_items st
   \<or> (\<exists>p c cs. r_payload req = Payload p \<and> pl_actions p = Some (c # cs)
        \<and> rs_action_items (snd (slack_interactions env req st))
            = mark_completed (renv_now env) (referenceId (or_else (c_block_id c) []))
                (rs_action_items st))"
proof (cases "r_payload req")
  case (Payload p)
  show ?thesis
  proof (cases "pl_actions p")
    case None
    with Payload show ?thesis by (simp add: slack_interactions_def Let_def)
  next
    case (Some acts)
    show ?thesis
    proof (cases acts)
      case Nil
      with Payload Some show ?thesis by (simp add: slack_interactions_def Let_def)
    next
      case (Cons c cs)
      with Payload Some show ?thesis
        by (cases "installation_token (renv_installations env) (pl_team_id p)")
           (simp_all add: slack_interactions_def Let_def handle_click_items)
    qed
  qed
qed (simp_all add: slack_interactions_def Let_def)

lemma slack_interactions_sc_items:
  "rs_action_items (snd (slack_interactions_sc env req st)) = rs_action_items st
   \<or> (\<exists>p c cs. r_payload req = Payload p \<and> pl_actions p = Some (c # cs)
        \<and> rs_action_items (snd (slack_interactions_sc env req st))
            = mark_completed (renv_now env) (referenceId (or_else (c_block_id c) []))
                (rs_action_items st))"
proof (cases "r_payload req")
  case (Payload p)
  show ?thesis
  proof (cases "pl_actions p")
    case None
    with Payload show ?thesis by (simp add: slack_interactions_sc_def Let_def)
  next
    case (Some acts)
    show ?thesis
    proof (cases acts)
      case Nil
      with Payload Some show ?thesis by (simp add: slack_interactions_sc_def Let_def)
    next
      case (Cons c cs)
      with Payload Some show ?thesis
        by (cases "installation_token (renv_installations env) (pl_team_id p)")
           (simp_all add: slack_interactions_sc_def Let_def handle_click_sc_items)
    qed
  qed
qed (simp_all add: slack_interactions_sc_def Let_def)

lemma slack_interactions_accepted:
  assumes "r_method req = ''POST''"
      and "renv_secret env = Some secret" "secret \<noteq> []"
      and "verifySlackSignature (renv_hmac env) secret (or_else (r_signature req) [])
             (or_else (r_timestamp req) []) (r_body req)"
      and "r_payload req = Payload p" "pl_type p = ''block_actions''"
      and "pl_actions p = Some (c # cs)"
      and "installation_token (renv_installations env) (pl_team_id p) = Some token"
  shows "slack_interactions env req st = (Response 200 [], handle_click env token p c st)"
  using assms by (simp add: slack_interactions_def Let_def truthy_def)

lemma slack_interactions_sc_accepted:
  assumes "r_method req = ''POST''"
      and "renv_secret env = Some secret" "secret \<noteq> []"
      and "verifySlackSignature_sc (renv_hmac env) (renv_now env) secret
             (or_else (r_signature req) []) (or_else (r_timestamp req) []) (r_body req)"
      and "r_payload req = Payload p" "pl_type p = ''block_actions''"
      and "pl_actions p = Some (c # cs)"
      and "installation_token (renv_installations env) (pl_team_id p) = Some token"
  shows "slack_interactions_sc env req st = (Response 200 [], handle_click_sc env token p c st)"
  using assms by (simp add: slack_interactions_sc_def Let_def or_else_def)

lemma second_delivery_items:
  assumes "r_payload req = Payload p" "pl_actions p = Some (c # cs)"
      and "referenceId (or_else (c_block_id c) []) = Some r"
  shows "rs_action_items (snd (slack_interactions env req st)) = rs_action_items st
         \<or> rs_action_items (snd (slack_interactions env req st))
             = mark_completed (renv_now env) (Some r) (rs_action_items st)"
    and "rs_action_items (snd (slack_interactions_sc env req st)) = rs_action_items st
         \<or> rs_action_items (snd (slack_interactions_sc env req st))
             = mark_completed (renv_now env) (Some r) (rs_action_items st)"
proof -
  from slack_interactions_items[of env req st]
  show "rs_action_items (snd (slack_interactions env req st)) = rs_action_items st
         \<or> rs_action_items (snd (slack_interactions env req st))
             = mark_completed (renv_now env) (Some r) (rs_action_items st)"
  proof
    assume "rs_action_items (snd (slack_interactions env req st)) = rs_action_items st"
    then show ?thesis by (rule disjI1)
  next
    assume "\<exists>p c cs. r_payload req = Payload p \<and> pl_actions p = Some (c # cs)
        \<and> rs_action_items (snd (slack_interactions env req st))
            = mark_completed (renv_now env) (referenceId (or_else (c_block_id c) []))
                (rs_action_items st)"
    then obtain p' c' cs' where "r_payload req = Payload p'" "pl_actions p' = Some (c' # cs')"
      and e: "rs_action_items (snd (slack_interactions env req st))
            = mark_completed (renv_now env) (referenceId (or_else (c_block_id c') []))
                (rs_action_items st)" by blast
    with assms(1,2) have "c' = c" by simp
    with e assms(3) show ?thesis by simp
  qed
  from slack_interactions_sc_items[of env req st]
  show "rs_action_items (snd (slack_interactions_sc env req st)) = rs_action_items st
         \<or> rs_action_items (snd (slack_interactions_sc env req st))
             = mark_completed (renv_now env) (Some r) (rs_action_items st)"
  proof
    assume "rs_action_items (snd (slack_interactions_sc env req st)) = rs_action_items st"
    then show ?thesis by (rule disjI1)
  next
    assume "\<exists>p c cs. r_payload req = Payload p \<and> pl_actions p = Some (c # cs)
        \<and> rs_action_items (snd (slack_interactions_sc env req st))
            = mark_completed (renv_now env) (referenceId (or_else (c_block_id c) []))
                (rs_action_items st)"
    then obtain p' c' cs' where "r_payload req = Payload p'" "pl_actions p' = Some (c' # cs')"
      and e: "rs_action_items (snd (slack_interactions_sc env req st))
            = mark_completed (renv_now env) (referenceId (or_else (c_block_id c') []))
                (rs_action_items st)" by blast
    with assms(1,2) have "c' = c" by simp
    with e assms(3) show ?thesis by simp
  qed
qed

text \<open>
  Claim C8. Take a click on \<^verbatim>\<open>action_done\<close> that the handler accepts (a \<^verbatim>\<open>POST\<close> with a
  verified signature, a \<^verbatim>\<open>block_actions\<close> payload, an installed team) and whose block
  id carries the reference id \<open>r\<close>. After the first delivery every action item with id
  \<open>r\<close> has status \<^verbatim>\<open>completed\<close>. After a second delivery of the same request, at any
  later clock reading \<open>t2\<close>, the same holds, the status of every row is what it was
  after the first delivery, and the table has the same rows by id as before: the update
  sets the status, it neither toggles it nor adds a row. Both handlers behave so.
\<close>

theorem action_done_twice_same_status:
  assumes post: "r_method req = ''POST''"
      and secret: "renv_secret env = Some secret" "secret \<noteq> []"
      and payload: "r_payload req = Payload p" "pl_type p = ''block_actions''"
                   "pl_actions p = Some (c # cs)"
      and clicked: "c_action_id c = ''action_done''"
      and ref: "referenceId (or_else (c_block_id c) []) = Some r"
      and inst: "installation_token (renv_installations env) (pl_team_id p) = Some token"
  shows "(verifySlackSignature (renv_hmac env) secret (or_else (r_signature req) [])
             (or_else (r_timestamp req) []) (r_body req) \<longrightarrow>
          (let s1 = snd (slack_interactions env req st);
               s2 = snd (slack_interactions (env\<lparr> renv_now := t2 \<rparr>) req s1)
           in (\<forall>x \<in> set (rs_action_items s1). ai_id x = r \<longrightarrow> ai_status x = ''completed'')
              \<and> (\<forall>x \<in> set (rs_action_items s2). ai_id x = r \<longrightarrow> ai_status x = ''completed'')
              \<and> map ai_status (rs_action_items s2) = map ai_status (rs_action_items s1)
              \<and> map ai_id (rs_action_items s2) = map ai_id (rs_action_items st)
              \<and> map ai_id (rs_action_items s1) = map ai_id (rs_action_items st)))
     \<and> (verifySlackSignature_sc (renv_hmac env) (renv_now env) secret
             (or_else (r_signature req) []) (or_else (r_timestamp req) []) (r_body req)
          \<and> r \<noteq> [] \<longrightarrow>
          (let s1 = snd (slack_interactions_sc env req st);
               s2 = snd (slack_interactions_sc (env\<lparr> renv_now := t2 \<rparr>) req s1)
           in (\<forall>x \<in> set (rs_action_items s1). ai_id x = r \<longrightarrow> ai_status x = ''completed'')
              \<and> (\<forall>x \<in> set (rs_action_items s2). ai_id x = r \<longrightarrow> ai_status x = ''completed'')
              \<and> map ai_status (rs_action_items s2) = map ai_status (rs_action_items s1)
              \<and> map ai_id (rs_action_items s2) = map ai_id (rs_action_items st)
              \<and> map ai_id (rs_action_items s1) = map ai_id (rs_action_items st)))"
proof (rule conjI; rule impI)
  assume v: "verifySlackSignature (renv_hmac env) secret (or_else (r_signature req) [])
             (or_else (r_timestamp req) []) (r_body req)"
  define s1 where "s1 = snd (slack_interactions env req st)"
  have "slack_interactions env req st = (Response 200 [], handle_click env token p c st)"
    by (rule slack_interactions_accepted[OF post secret v payload inst])
  then have i1: "rs_action_items s1
                   = mark_completed (renv_now env) (Some r) (rs_action_items st)"
    by (simp add: s1_def handle_click_items clicked ref)
  have i2: "rs_action_items (snd (slack_interactions (env\<lparr> renv_now := t2 \<rparr>) req s1))
              = rs_action_items s1
            \<or> rs_action_items (snd (slack_interactions (env\<lparr> renv_now := t2 \<rparr>) req s1))
              = mark_completed t2 (Some r) (rs_action_items s1)"
    using second_delivery_items(1)[OF payload(1) payload(3) ref, of "env\<lparr> renv_now := t2 \<rparr>" s1]
    by simp
  from two_deliveries[OF i1 i2]
  show "let s1 = snd (slack_interactions env req st);
            s2 = snd (slack_interactions (env\<lparr> renv_now := t2 \<rparr>) req s1)
        in (\<forall>x \<in> set (rs_action_items s1). ai_id x = r \<longrightarrow> ai_status x = ''completed'')
           \<and> (\<forall>x \<in> set (rs_action_items s2). ai_id x = r \<longrightarrow> ai_status x = ''completed'')
           \<and> map ai_status (rs_action_items s2) = map ai_status (rs_action_items s1)
           \<and> map ai_id (rs_action_items s2) = map ai_id (rs_action_items st)
           \<and> map ai_id (rs_action_items s1) = map ai_id (rs_action_items st)"
    unfolding Let_def s1_def .
next
  assume "verifySlackSignature_sc (renv_hmac env) (renv_now env) secret
             (or_else (r_signature req) []) (or_else (r_timestamp req) []) (r_body req)
          \<and> r \<noteq> []"
  then have v: "verifySlackSignature_sc (renv_hmac env) (renv_now env) secret
             (or_else (r_signature req) []) (or_else (r_timestamp req) []) (r_body req)"
    and rne: "r \<noteq> []" by simp_all
  define s1 where "s1 = snd (slack_interactions_sc env req st)"
  have "slack_interactions_sc env req st = (Response 200 [], handle_click_sc env token p c st)"
    by (rule slack_interactions_sc_accepted[OF post secret v payload inst])
  then have i1: "rs_action_items s1
                   = mark_completed (renv_now env) (Some r) (rs_action_items st)"
    using rne by (simp add: s1_def handle_click_sc_items clicked ref truthy_def)
  have i2: "rs_action_items (snd (slack_interactions_sc (env\<lparr> renv_now := t2 \<rparr>) req s1))
              = rs_action_items s1
            \<or> rs_action_items (snd (slack_interactions_sc (env\<lparr> renv_now := t2 \<rparr>) req s1))
              = mark_completed t2 (Some r) (rs_action_items s1)"
    using second_delivery_items(2)[OF payload(1) payload(3) ref, of "env\<lparr> renv_now := t2 \<rparr>" s1]
    by simp
  from two_deliveries[OF i1 i2]
  show "let s1 = snd (slack_interactions_sc env req st);
            s2 = snd (slack_interactions_sc (env\<lparr> renv_now := t2 \<rparr>) req s1)
        in (\<forall>x \<in> set (rs_action_items s1). ai_id x = r \<longrightarrow> ai_status x = ''completed'')
           \<and> (\<forall>x \<in> set (rs_action_items s2). ai_id x = r \<longrightarrow> ai_status x = ''completed'')
           \<and> map ai_status (rs_action_items s2) = map ai_status (rs_action_items s1)
           \<and> map ai_id (rs_action_items s2) = map ai_id (rs_action_items st)
           \<and> map ai_id (rs_action_items s1) = map ai_id (rs_action_items st)"
    unfolding Let_def s1_def .
qed


theorem action_done_twice_same_status_witness:
  "r_method click_request = ''POST''
   \<and> renv_secret (click_env 1700000005000) = Some ''s3cr3t''
   \<and> verifySlackSignature (renv_hmac (click_env 1700000005000)) ''s3cr3t''
         (or_else (r_signature click_request) []) (or_else (r_timestamp click_request) [])
         (r_body click_request)
   \<and> verifySlackSignature_sc (renv_hmac (click_env 1700000005000))
         (renv_now (click_env 1700000005000)) ''s3cr3t''
         (or_else (r_signature click_request) []) (or_else (r_timestamp click_request) [])
         (r_body click_request)
   \<and> map ai_status (rs_action_items click_state) = [''pending'', ''pending'']
   \<and> map ai_status (rs_action_items (snd (slack_interactions (click_env 1700000005000) click_request click_state)))
        = [''completed'', ''pending'']
   \<and> map ai_status (rs_action_items (snd (slack_interactions ((click_env 1700000005000)\<lparr> renv_now := 1700000009000 \<rparr>) click_request
          (snd (slack_interactions (click_env 1700000005000) click_request click_state)))))
        = [''completed'', ''pending'']
   \<and> map ai_status (rs_action_items (snd (slack_interactions_sc ((click_env 1700000005000)\<lparr> renv_now := 1700000009000 \<rparr>) click_request
          (snd (slack_interactions_sc (click_env 1700000005000) click_request click_state)))))
        = [''completed'', ''pending'']"
proof -
  let ?env = "click_env 1700000005000"
  let ?p = "\<lparr> pl_type = ''block_actions'',
           pl_actions = Some [\<lparr> c_action_id = ''action_done'', c_block_id = Some ''action_a1'' \<rparr>],
           pl_team_id = Some ''T1'', pl_message_ts = Some ''1699990000.000100'',
           pl_channel_id = Some ''D1'', pl_challenge = [] \<rparr>"
  let ?c = "\<lparr> c_action_id = ''action_done'', c_block_id = Some ''action_a1'' \<rparr>"
  have h1: "r_method click_request = ''POST''" by (simp add: click_request_def)
  have h2: "renv_secret ?env = Some ''s3cr3t''" by (simp add: click_env_def)
  have h3: "''s3cr3t'' \<noteq> []" by simp
  have h4: "r_payload click_request = Payload ?p" by (simp add: click_request_def)
  have h5: "pl_type ?p = ''block_actions''" by simp
  have h6: "pl_actions ?p = Some (?c # [])" by simp
  have h7: "c_action_id ?c = ''action_done''" by simp
  have h8: "referenceId (or_else (c_block_id ?c) []) = Some ''a1''" by code_simp
  have h9: "installation_token (renv_installations ?env) (pl_team_id ?p) = Some ''xoxb-1''"
    by code_simp
  have v: "verifySlackSignature (renv_hmac ?env) ''s3cr3t''
         (or_else (r_signature click_request) []) (or_else (r_timestamp click_request) [])
         (r_body click_request)" by code_simp
  have v': "verifySlackSignature_sc (renv_hmac ?env) (renv_now ?env) ''s3cr3t''
         (or_else (r_signature click_request) []) (or_else (r_timestamp click_request) [])
         (r_body click_request)" by code_simp
  have r: "''a1'' \<noteq> []" by simp
  note t = action_done_twice_same_status[OF h1 h2 h3 h4 h5 h6 h7 h8 h9, of click_state 1700000009000]
  have a: "map ai_status (rs_action_items (snd (slack_interactions ((click_env 1700000005000)\<lparr> renv_now := 1700000009000 \<rparr>) click_request
          (snd (slack_interactions (click_env 1700000005000) click_request click_state)))))
      = map ai_status (rs_action_items (snd (slack_interactions (click_env 1700000005000) click_request click_state)))"
    using t[THEN conjunct1, rule_format, OF v] unfolding Let_def by (elim conjE)
  have b: "map ai_status (rs_action_items (snd (slack_interactions_sc ((click_env 1700000005000)\<lparr> renv_now := 1700000009000 \<rparr>) click_request
          (snd (slack_interactions_sc (click_env 1700000005000) click_request click_state)))))
      = map ai_status (rs_action_items (snd (slack_interactions_sc (click_env 1700000005000) click_request click_state)))"
    using t[THEN conjunct2, rule_format, OF conjI[OF v' r]] unfolding Let_def by (elim conjE)
  have e0: "map ai_status (rs_action_items click_state) = [''pending'', ''pending'']"
    by code_simp
  have e1: "map ai_status (rs_action_items (snd (slack_interactions (click_env 1700000005000) click_request click_state)))
        = [''completed'', ''pending'']" by code_simp
  have e2: "map ai_status (rs_action_items (snd (slack_interactions_sc (click_env 1700000005000) click_request click_state)))
        = [''completed'', ''pending'']" by code_simp
  show ?thesis
    by (intro conjI) (rule h1 h2 v v' e0 e1 a[unfolded e1] b[unfolded e2])+
qed


lemma bad_signature_rejected:
  assumes "r_method req = ''POST''" and "renv_secret env = Some secret" and "secret \<noteq> []"
      and "''v0='' @ renv_hmac env secret
             (''v0:'' @ or_else (r_timestamp req) [] @ '':'' @ r_body req)
           \<noteq> or_else (r_signature req) []"
  shows "slack_interactions env req st = (Response 401 ''Invalid signature'', st)"
    and "slack_interactions_sc env req st = (Response 401 ''Invalid signature'', st)"
  using assms
  by (simp_all add: slack_interactions_def slack_interactions_sc_def Let_def truthy_def
        verifySlackSignature_def verifySlackSignature_sc_def or_else_def)

lemma stale_rejected_sc:
  assumes "r_method req = ''POST''" and "renv_secret env = Some secret" and "secret \<noteq> []"
      and "parseInt (or_else (r_timestamp req) []) = Some t"
      and "\<bar>renv_now env div 1000 - t\<bar> > 300"
  shows "slack_interactions_sc env req st = (Response 401 ''Invalid signature'', st)"
  using assms
  by (simp add: slack_interactions_sc_def Let_def verifySlackSignature_sc_def or_else_def)

lemma response_ignores_clock:
  "fst (slack_interactions (env\<lparr> renv_now := t \<rparr>) req st) = fst (slack_interactions env req st)"
proof (cases "r_payload req")
  case (Payload p)
  show ?thesis
  proof (cases "pl_actions p")
    case None
    with Payload show ?thesis by (simp add: slack_interactions_def Let_def)
  next
    case (Some acts)
    show ?thesis
    proof (cases acts)
      case Nil
      with Payload Some show ?thesis by (simp add: slack_interactions_def Let_def)
    next
      case (Cons c cs)
      with Payload Some show ?thesis
        by (cases "installation_token (renv_installations env) (pl_team_id p)")
           (simp_all add: slack_interactions_def Let_def)
    qed
  qed
qed (simp_all add: slack_interactions_def Let_def)

text \<open>
  Claim C4, evaluated at a replayed request. The click of the scenario was signed at
  second 1700000000; it is delivered when the clock shows an hour more. The shared
  handler, whose \<^verbatim>\<open>verifySlackSignature\<close> never looks at the clock, answers 200, marks
  the action item completed and the nudge responded. The self-contained handler rejects
  the same request with 401 and no change. In general the shared handler's answer does
  not depend on the clock at all.
\<close>

theorem stale_callback_accepted_by_shared_handler:
  "parseInt ''1700000000'' = Some 1700000000
   \<and> (1700003600000 div 1000) - 1700000000 = (3600::int)
   \<and> fst (slack_interactions (click_env 1700003600000) click_request click_state)
       = Response 200 []
   \<and> map ai_status (rs_action_items
        (snd (slack_interactions (click_env 1700003600000) click_request click_state)))
       = [''completed'', ''pending'']
   \<and> map n_status (rs_nudges
        (snd (slack_interactions (click_env 1700003600000) click_request click_state)))
       = [''responded'']
   \<and> slack_interactions_sc (click_env 1700003600000) click_request click_state
       = (Response 401 ''Invalid signature'', click_state)
   \<and> fst (slack_interactions (env\<lparr> renv_now := t \<rparr>) req st)
       = fst (slack_interactions env req st)"
proof (intro conjI)
  show "parseInt ''1700000000'' = Some 1700000000" by code_simp
  show "(1700003600000 div 1000) - 1700000000 = (3600::int)" by simp
  show "fst (slack_interactions (click_env 1700003600000) click_request click_state)
       = Response 200 []" by code_simp
  show "map ai_status (rs_action_items
        (snd (slack_interactions (click_env 1700003600000) click_request click_state)))
       = [''completed'', ''pending'']" by code_simp
  show "map n_status (rs_nudges
        (snd (slack_interactions (click_env 1700003600000) click_request click_state)))
       = [''responded'']" by code_simp
  show "slack_interactions_sc (click_env 1700003600000) click_request click_state
       = (Response 401 ''Invalid signature'', click_state)" by code_simp
  show "fst (slack_interactions (env\<lparr> renv_now := t \<rparr>) req st)
       = fst (slack_interactions env req st)" by (rule response_ignores_clock)
qed



section \<open>Properties of the Survey Progression Resolver\<close>

text \<open>
  The fallback loop by itself: the row it returns belongs to the first session of its
  input without a submission, and its survey kind is \<^verbatim>\<open>grow_baseline\<close> exactly when
  the session's program (or, failing that, the caller's program type) is GROW and the
  employee has no baseline submission.
\<close>

lemma first_unsurveyed_result:
  assumes "first_unsurveyed subs mail pt xs = Some r"
  shows "\<exists>pre s post. xs = pre @ s # post
           \<and> session_id r = s_id s \<and> session_number r = s_appointment_number s
           \<and> \<not> list_ex (\<lambda>ss. ilike (ss_email ss) mail \<and> ss_session_id ss = Some (s_id s)) subs
           \<and> (\<forall>x \<in> set pre.
                 list_ex (\<lambda>ss. ilike (ss_email ss) mail \<and> ss_session_id ss = Some (s_id x)) subs)
           \<and> survey_type r =
               (if (case (if truthy (s_program_name s) then s_program_name s else pt) of
                      None \<Rightarrow> False | Some prog \<Rightarrow> toUpperCase prog = ''GROW'')
                   \<and> \<not> hasCompletedBaselineSurvey subs mail
                then ''grow_baseline'' else ''scale_feedback'')"
  using assms
proof (induction xs)
  case Nil
  then show ?case by simp
next
  case (Cons x xs)
  show ?case
  proof (cases "list_ex (\<lambda>ss. ilike (ss_email ss) mail \<and> ss_session_id ss = Some (s_id x)) subs")
    case True
    with Cons.prems have "first_unsurveyed subs mail pt xs = Some r" by simp
    from Cons.IH[OF this] obtain pre s post where
      p: "xs = pre @ s # post"
         "session_id r = s_id s \<and> session_number r = s_appointment_number s
           \<and> \<not> list_ex (\<lambda>ss. ilike (ss_email ss) mail \<and> ss_session_id ss = Some (s_id s)) subs
           \<and> (\<forall>x \<in> set pre.
                 list_ex (\<lambda>ss. ilike (ss_email ss) mail \<and> ss_session_id ss = Some (s_id x)) subs)
           \<and> survey_type r =
               (if (case (if truthy (s_program_name s) then s_program_name s else pt) of
                      None \<Rightarrow> False | Some prog \<Rightarrow> toUpperCase prog = ''GROW'')
                   \<and> \<not> hasCompletedBaselineSurvey subs mail
                then ''grow_baseline'' else ''scale_feedback'')"
      by blast
    have "x # xs = (x # pre) @ s # post" using p(1) by simp
    moreover have "\<forall>y \<in> set (x # pre).
                 list_ex (\<lambda>ss. ilike (ss_email ss) mail \<and> ss_session_id ss = Some (s_id y)) subs"
      using True p(2) by simp
    ultimately show ?thesis using p(2) by blast
  next
    case False
    with Cons.prems have r: "r = \<lparr> session_id = s_id x, session_number = s_appointment_number x,
                   session_date = s_session_date x,
                   ps_coach_name = Some (or_else (s_coach_name x) ''Your Coach''),
                   survey_type =
                     (if (case (if truthy (s_program_name x) then s_program_name x else pt) of
                            None \<Rightarrow> False | Some prog \<Rightarrow> toUpperCase prog = ''GROW'')
                      then (if hasCompletedBaselineSurvey subs mail
                            then ''scale_feedback'' else ''grow_baseline'')
                      else ''scale_feedback'') \<rparr>"
      by (simp add: Let_def)
    have a: "x # xs = [] @ x # xs" by simp
    have b: "session_id r = s_id x \<and> session_number r = s_appointment_number x"
      by (simp add: r)
    have c: "survey_type r =
               (if (case (if truthy (s_program_name x) then s_program_name x else pt) of
                      None \<Rightarrow> False | Some prog \<Rightarrow> toUpperCase prog = ''GROW'')
                   \<and> \<not> hasCompletedBaselineSurvey subs mail
                then ''grow_baseline'' else ''scale_feedback'')"
      by (simp add: r)
    have d: "\<forall>y \<in> set ([]::session list).
                 list_ex (\<lambda>ss. ilike (ss_email ss) mail \<and> ss_session_id ss = Some (s_id y)) subs"
      by simp
    from a b c d False show ?thesis by blast
  qed
qed


text \<open>
  Hence the fallback returns a completed milestone session of the employee that has
  no submission, and every such session of an earlier date has one.
\<close>

lemma pending_fallback_oldest:
  assumes "pending_fallback sessions subs mail pt = Some r"
  shows "\<exists>s \<in> set sessions.
           session_id r = s_id s
           \<and> ilike (s_employee_email s) mail \<and> s_status s = ''Completed'' \<and> at_milestone s
           \<and> \<not> list_ex (\<lambda>ss. ilike (ss_email ss) mail \<and> ss_session_id ss = Some (s_id s)) subs
           \<and> (\<forall>x \<in> set sessions.
                 ilike (s_employee_email x) mail \<and> s_status x = ''Completed'' \<and> at_milestone x
                 \<and> s_session_date x < s_session_date s
                 \<longrightarrow> list_ex (\<lambda>ss. ilike (ss_email ss) mail \<and> ss_session_id ss = Some (s_id x)) subs)"
proof -
  define cand :: "session \<Rightarrow> bool" where
    "cand = (\<lambda>st. ilike (s_employee_email st) mail \<and> s_status st = ''Completed'' \<and> at_milestone st)"
  define surveyed :: "session \<Rightarrow> bool" where
    "surveyed = (\<lambda>x. list_ex (\<lambda>ss. ilike (ss_email ss) mail \<and> ss_session_id ss = Some (s_id x)) subs)"
  define xs where "xs = sort_key s_session_date (filter cand sessions)"
  have f: "first_unsurveyed subs mail pt xs = Some r"
    using assms by (simp add: pending_fallback_def xs_def cand_def)
  from first_unsurveyed_result[OF f] obtain pre s post where
    xs: "xs = pre @ s # post" and id: "session_id r = s_id s"
    and ns: "\<not> surveyed s" and pre: "\<forall>x \<in> set pre. surveyed x"
    unfolding surveyed_def by blast
  have set_xs: "set xs = {x \<in> set sessions. cand x}" by (simp add: xs_def)
  have sorted_xs: "sorted (map s_session_date xs)" by (simp add: xs_def)
  have s_in: "s \<in> set sessions" and s_cand: "cand s"
    using set_xs xs by auto
  have older: "surveyed x"
    if "x \<in> set sessions" "cand x" "s_session_date x < s_session_date s" for x
  proof -
    from that(1,2) have "x \<in> set xs" using set_xs by simp
    then have "x \<in> set pre \<or> x = s \<or> x \<in> set post" using xs by auto
    moreover have "x \<noteq> s" using that(3) by auto
    moreover have "x \<notin> set post"
    proof
      assume "x \<in> set post"
      with sorted_xs xs have "s_session_date s \<le> s_session_date x"
        by (auto simp: sorted_append)
      with that(3) show False by simp
    qed
    ultimately show ?thesis using pre by blast
  qed
  have "session_id r = s_id s \<and> cand s \<and> \<not> surveyed s
        \<and> (\<forall>x \<in> set sessions. cand x \<and> s_session_date x < s_session_date s \<longrightarrow> surveyed x)"
    using id s_cand ns older by blast
  with s_in show ?thesis unfolding cand_def surveyed_def by blast
qed

text \<open>
  Claim C1, evaluated. The employee has completed sessions at ordinals 1, 3 and 6
  (in this order of date) and a submission for ordinal 1 only. The remote procedure
  orders the pending rows by date descending and keeps one, so it returns ordinal 6,
  and \<^verbatim>\<open>fetchPendingSurvey\<close> hands that row on. Only when the procedure fails does the
  fallback run, which returns ordinal 3.
\<close>

theorem pending_survey_rpc_returns_newest:
  "map session_number
     (get_pending_survey survey_sessions survey_employees submitted_surveys ''ann@example.com'')
     = [Some 6]
   \<and> map_option session_number
       (fetchPendingSurvey False survey_sessions survey_employees submitted_surveys
          ''ann@example.com'' None) = Some (Some 6)
   \<and> map_option session_number
       (fetchPendingSurvey True survey_sessions survey_employees submitted_surveys
          ''ann@example.com'' None) = Some (Some 3)"
  by code_simp

text \<open>
  Claim C6, evaluated. The employee's only completed milestone session belongs to the
  GROW program and there is no \<^verbatim>\<open>grow_baseline\<close> submission. The remote procedure's row
  carries the view's fixed \<^verbatim>\<open>scale_feedback\<close>, and \<^verbatim>\<open>fetchPendingSurvey\<close> returns it
  unchanged. The fallback, when it runs, selects \<^verbatim>\<open>grow_baseline\<close>.
\<close>

theorem pending_survey_rpc_ignores_program:
  "\<not> hasCompletedBaselineSurvey submitted_surveys ''bob@example.com''
   \<and> map_option (\<lambda>r. (session_id r, survey_type r))
       (fetchPendingSurvey False survey_sessions survey_employees submitted_surveys
          ''bob@example.com'' (Some ''GROW'')) = Some (''g1'', ''scale_feedback'')
   \<and> map_option (\<lambda>r. (session_id r, survey_type r))
       (fetchPendingSurvey True survey_sessions survey_employees submitted_surveys
          ''bob@example.com'' (Some ''GROW'')) = Some (''g1'', ''grow_baseline'')"
  by code_simp


text \<open>
  The fallback compares the program name with \<^verbatim>\<open>GROW\<close> exactly (after upper-casing):
  a session whose program name is \<^verbatim>\<open>GROW - Cohort 1\<close> gets \<^verbatim>\<open>scale_feedback\<close>.
\<close>

lemma fallback_compares_program_name_exactly:
  "map_option survey_type
     (pending_fallback
        [milestone_session ''g1'' ''e2'' ''bob@example.com'' 19600 1 ''GROW - Cohort 1'']
        [] ''bob@example.com'' (Some ''GROW''))
     = Some ''scale_feedback''"
  by code_simp


section \<open>Properties of template rendering\<close>

lemma match_placeholder_braces:
  assumes "key \<noteq> []" and "list_all word_char key"
  shows "match_placeholder (''{{'' @ key @ ''}}'' @ rest) = Some (key, rest)"
proof -
  have nw: "\<not> word_char CHR ''}''" by (simp add: word_char_def)
  have all: "\<forall>c \<in> set key. word_char c" using assms(2) by (simp add: list_all_iff)
  have tw: "takeWhile word_char (key @ CHR ''}'' # CHR ''}'' # rest) = key"
    using all nw by simp
  have dw: "dropWhile word_char (key @ CHR ''}'' # CHR ''}'' # rest) = CHR ''}'' # CHR ''}'' # rest"
    using all nw by simp
  show ?thesis
    using assms(1) by (simp add: match_placeholder_def tw dw Let_def)
qed

text \<open>
  The shared renderer replaces a placeholder by the variable's text, and by nothing
  when the variable is unresolved.
\<close>

lemma renderTemplate_placeholder:
  assumes "key \<noteq> []" and "list_all word_char key"
  shows "renderTemplate inherited (''{{'' @ key @ ''}}'' @ rest) vars
           = (case lookup_var inherited vars key of Some v \<Rightarrow> v | None \<Rightarrow> [])
             @ renderTemplate inherited rest vars"
proof -
  have m: "match_placeholder (CHR ''{'' # CHR ''{'' # key @ CHR ''}'' # CHR ''}'' # rest)
             = Some (key, rest)"
    using match_placeholder_braces[OF assms, of rest] by simp
  show ?thesis
    by (simp add: m)
qed

lemma renderTemplate_unresolved:
  assumes "key \<noteq> []" and "list_all word_char key"
      and "lookup_var inherited vars key = None"
  shows "renderTemplate inherited (''{{'' @ key @ ''}}'' @ rest) vars
           = renderTemplate inherited rest vars"
  by (simp only: renderTemplate_placeholder[OF assms(1,2)] assms(3) option.case append_Nil)

text \<open>
  Claim C7, evaluated. The template mentions \<^verbatim>\<open>{{portal_url}}\<close>, for which the
  action-item section passes no variable. The self-contained renderer, which replaces
  one placeholder per entry of the variables, leaves the placeholder in the message as
  it is; the shared renderer replaces it by the empty text.
\<close>

theorem self_contained_renderer_keeps_unknown_placeholder:
  "map_of reminder_variables ''portal_url'' = None
   \<and> replace_entries reminder_variables reminder_template
       = Inr ''[Hi Ann, Cy Coach asked: Read chapter 2 by *Tomorrow*. See {{portal_url}}/actions]''
   \<and> renderBlocks_sc (\<lambda>_. True) reminder_template reminder_variables
       = Inr ''[Hi Ann, Cy Coach asked: Read chapter 2 by *Tomorrow*. See {{portal_url}}/actions]''
   \<and> renderTemplate (\<lambda>_. None) reminder_template reminder_variables
       = ''[Hi Ann, Cy Coach asked: Read chapter 2 by *Tomorrow*. See /actions]''"
  by code_simp


section \<open>Properties of the Dispatcher\<close>

lemma usable_connection_disabled:
  assumes "env_connection env mail = Some (c # cs)" and "\<not> nudge_enabled c"
  shows "usable_connection env mail = None" and "usable_connection_sc env mail = None"
  using assms by (simp_all add: usable_connection_def usable_connection_sc_def)

lemma process_goal_unusable:
  assumes "usable_connection env mail = None" and "e_company_email emp = Some mail"
  shows "process_goal env templates st (s, emp) = st"
  using assms by (simp add: process_goal_def Let_def)

lemma process_prep_unusable:
  assumes "usable_connection env mail = None" and "e_company_email emp = Some mail"
  shows "process_prep env templates st (s, emp) = st"
  using assms by (simp add: process_prep_def Let_def)

lemma process_goal_sc_unusable:
  assumes "usable_connection_sc env mail = None" and "e_company_email emp = Some mail"
  shows "process_goal_sc env templates st (s, emp) = st"
  using assms by (simp add: process_goal_sc_def Let_def)

lemma process_prep_sc_unusable:
  assumes "usable_connection_sc env mail = None" and "e_company_email emp = Some mail"
  shows "process_prep_sc env templates st (s, emp) = st"
  using assms by (simp add: process_prep_sc_def Let_def)

text \<open>
  The \<^verbatim>\<open>nudge_enabled\<close> flag. When the first connection row resolved for a candidate's
  e-mail has the flag false, processing the candidate leaves the state as it was: no
  message is handed to the messaging API, no nudge is recorded and no counter moves,
  whatever the frequency mode, the timing, the templates and the recorded nudges are.
  This holds for the three nudge kinds and for both variants of the scheduler.
\<close>

lemma disabled_connection_never_sends:
  assumes "env_connection env mail = Some (c # cs)" and "\<not> nudge_enabled c"
  shows "(email action = mail \<longrightarrow>
            process_action env templates st action = st
          \<and> process_action_sc env templates st action = st)
       \<and> (e_company_email emp = Some mail \<longrightarrow>
            process_goal env templates st (s, emp) = st
          \<and> process_prep env templates st (s, emp) = st
          \<and> process_goal_sc env templates st (s, emp) = st
          \<and> process_prep_sc env templates st (s, emp) = st)"
proof (intro conjI impI)
  note u = usable_connection_disabled[OF assms]
  { assume "email action = mail"
    with u show "process_action env templates st action = st"
      by (simp add: process_action_def)
    from \<open>email action = mail\<close> u show "process_action_sc env templates st action = st"
      by (simp add: process_action_sc_def) }
  { assume e: "e_company_email emp = Some mail"
    show "process_goal env templates st (s, emp) = st"
      by (rule process_goal_unusable[OF u(1) e])
    show "process_prep env templates st (s, emp) = st"
      by (rule process_prep_unusable[OF u(1) e])
    show "process_goal_sc env templates st (s, emp) = st"
      by (rule process_goal_sc_unusable[OF u(2) e])
    show "process_prep_sc env templates st (s, emp) = st"
      by (rule process_prep_sc_unusable[OF u(2) e]) }
qed


lemma disabled_connection_never_sends_example:
  "env_connection (scenario_env False ''smart'') ''ann@example.com''
     = Some [scenario_connection False ''smart'']
   \<and> \<not> nudge_enabled (scenario_connection False ''smart'')
   \<and> email scenario_action = ''ann@example.com''
   \<and> process_action (scenario_env False ''smart'') scenario_templates nothing_sent scenario_action
       = nothing_sent
   \<and> process_action_sc (scenario_env False ''smart'') scenario_templates nothing_sent scenario_action
       = nothing_sent
   \<and> map m_text (posted (process_action (scenario_env True ''smart'') scenario_templates
                          nothing_sent scenario_action))
       = [''Reminder: Read chapter 2'']"
proof -
  have h1: "env_connection (scenario_env False ''smart'') ''ann@example.com''
     = Some (scenario_connection False ''smart'' # [])" by code_simp
  have h2: "\<not> nudge_enabled (scenario_connection False ''smart'')"
    by (simp add: scenario_connection_def)
  have h3: "email scenario_action = ''ann@example.com''" by (simp add: scenario_action_def)
  have e: "map m_text (posted (process_action (scenario_env True ''smart'') scenario_templates
                          nothing_sent scenario_action))
       = [''Reminder: Read chapter 2'']" by code_simp
  from disabled_connection_never_sends[OF h1 h2, of scenario_action scenario_templates nothing_sent] h1 h2 h3 e
  show ?thesis by simp
qed

lemma foldl_unchanged: "(\<And>x. f st x = st) \<Longrightarrow> foldl f st xs = st"
  by (induction xs) simp_all

lemma all_disabled_unusable:
  assumes "\<And>mail c cs. env_connection env mail = Some (c # cs) \<Longrightarrow> \<not> nudge_enabled c"
  shows "usable_connection env mail = None" and "usable_connection_sc env mail = None"
proof -
  show "usable_connection env mail = None"
  proof (cases "env_connection env mail")
    case None
    then show ?thesis by (simp add: usable_connection_def)
  next
    case (Some rows)
    show ?thesis
    proof (cases rows)
      case Nil
      with Some show ?thesis by (simp add: usable_connection_def)
    next
      case (Cons c cs)
      with Some assms[of mail c cs] show ?thesis by (simp add: usable_connection_def)
    qed
  qed
  show "usable_connection_sc env mail = None"
  proof (cases "env_connection env mail")
    case None
    then show ?thesis by (simp add: usable_connection_sc_def)
  next
    case (Some rows)
    show ?thesis
    proof (cases rows)
      case Nil
      with Some show ?thesis by (simp add: usable_connection_sc_def)
    next
      case (Cons c cs)
      with Some assms[of mail c cs] show ?thesis by (simp add: usable_connection_sc_def)
    qed
  qed
qed

lemma unusable_steps:
  assumes "\<And>mail. usable_connection env mail = None"
  shows "process_action env templates st action = st"
    and "process_goal env templates st row = st"
    and "process_prep env templates st row = st"
  using assms
  by (simp_all add: process_action_def process_goal_def process_prep_def Let_def)

lemma unusable_steps_sc:
  assumes "\<And>mail. usable_connection_sc env mail = None"
  shows "process_action_sc env templates st action = st"
    and "process_goal_sc env templates st row = st"
    and "process_prep_sc env templates st row = st"
  using assms
  by (simp_all add: process_action_sc_def process_goal_sc_def process_prep_sc_def Let_def)

text \<open>
  For a whole run: when every connection the directory resolves is disabled, the run
  sends nothing and records nothing.
\<close>

lemma all_disabled_cycle_sends_nothing:
  assumes "\<And>mail c cs. env_connection env mail = Some (c # cs) \<Longrightarrow> \<not> nudge_enabled c"
  shows "posted (nudge_scheduler env today db st) = posted st"
    and "nudges (nudge_scheduler env today db st) = nudges st"
    and "posted (nudge_scheduler_sc env today db st) = posted st"
    and "nudges (nudge_scheduler_sc env today db st) = nudges st"
proof -
  note u = all_disabled_unusable[OF assms]
  have a: "foldl (process_action env templates) s xs = s" for templates s xs
    by (rule foldl_unchanged) (rule unusable_steps(1)[OF u(1)])
  have g: "foldl (process_goal env templates) s xs = s" for templates s xs
    by (rule foldl_unchanged) (rule unusable_steps(2)[OF u(1)])
  have p: "foldl (process_prep env templates) s xs = s" for templates s xs
    by (rule foldl_unchanged) (rule unusable_steps(3)[OF u(1)])
  have a': "foldl (process_action_sc env templates) s xs = s" for templates s xs
    by (rule foldl_unchanged) (rule unusable_steps_sc(1)[OF u(2)])
  have g': "foldl (process_goal_sc env templates) s xs = s" for templates s xs
    by (rule foldl_unchanged) (rule unusable_steps_sc(2)[OF u(2)])
  have p': "foldl (process_prep_sc env templates) s xs = s" for templates s xs
    by (rule foldl_unchanged) (rule unusable_steps_sc(3)[OF u(2)])
  show "posted (nudge_scheduler env today db st) = posted st"
    and "nudges (nudge_scheduler env today db st) = nudges st"
    by (simp_all add: nudge_scheduler_def Let_def a g p)
  show "posted (nudge_scheduler_sc env today db st) = posted st"
    and "nudges (nudge_scheduler_sc env today db st) = nudges st"
    by (simp_all add: nudge_scheduler_sc_def Let_def a' g' p')
qed

text \<open>
  The frequency mode plays no part in a candidate's processing: rewriting the mode of
  every connection row leaves each step and each run as it was.
\<close>

lemma usable_connection_frequency:
  "usable_connection
     (env\<lparr> env_connection :=
            (\<lambda>m. map_option (map (\<lambda>c. c\<lparr> nudge_frequency := f \<rparr>)) (env_connection env m)) \<rparr>)
     mail
   = map_option (\<lambda>c. c\<lparr> nudge_frequency := f \<rparr>) (usable_connection env mail)"
  "usable_connection_sc
     (env\<lparr> env_connection :=
            (\<lambda>m. map_option (map (\<lambda>c. c\<lparr> nudge_frequency := f \<rparr>)) (env_connection env m)) \<rparr>)
     mail
   = map_option (\<lambda>c. c\<lparr> nudge_frequency := f \<rparr>) (usable_connection_sc env mail)"
proof -
  show "usable_connection
     (env\<lparr> env_connection :=
            (\<lambda>m. map_option (map (\<lambda>c. c\<lparr> nudge_frequency := f \<rparr>)) (env_connection env m)) \<rparr>)
     mail
   = map_option (\<lambda>c. c\<lparr> nudge_frequency := f \<rparr>) (usable_connection env mail)"
  proof (cases "env_connection env mail")
    case None
    then show ?thesis by (simp add: usable_connection_def)
  next
    case (Some rows)
    then show ?thesis by (cases rows) (simp_all add: usable_connection_def)
  qed
  show "usable_connection_sc
     (env\<lparr> env_connection :=
            (\<lambda>m. map_option (map (\<lambda>c. c\<lparr> nudge_frequency := f \<rparr>)) (env_connection env m)) \<rparr>)
     mail
   = map_option (\<lambda>c. c\<lparr> nudge_frequency := f \<rparr>) (usable_connection_sc env mail)"
  proof (cases "env_connection env mail")
    case None
    then show ?thesis by (simp add: usable_connection_sc_def)
  next
    case (Some rows)
    then show ?thesis by (cases rows) (simp_all add: usable_connection_sc_def)
  qed
qed

lemma send_and_record_frequency:
  "send_and_record
     (env\<lparr> env_connection := g \<rparr>) (c\<lparr> nudge_frequency := f \<rparr>)
     blocks msg mail kind ref ref_type bump st
   = send_and_record env c blocks msg mail kind ref ref_type bump st"
  "send_and_record_sc
     (env\<lparr> env_connection := g \<rparr>) (c\<lparr> nudge_frequency := f \<rparr>)
     blocks msg mail kind ref ref_type bump st
   = send_and_record_sc env c blocks msg mail kind ref ref_type bump st"
  by (simp_all add: send_and_record_def send_and_record_sc_def Let_def split: post_result.split)

lemma process_frequency:
  fixes env :: sched_env and f :: string
  defines "env' \<equiv> env\<lparr> env_connection :=
            (\<lambda>m. map_option (map (\<lambda>c. c\<lparr> nudge_frequency := f \<rparr>)) (env_connection env m)) \<rparr>"
  shows "process_action env' templates st action = process_action env templates st action"
    and "process_goal env' templates st row = process_goal env templates st row"
    and "process_prep env' templates st row = process_prep env templates st row"
    and "process_action_sc env' templates st action = process_action_sc env templates st action"
    and "process_goal_sc env' templates st row = process_goal_sc env templates st row"
    and "process_prep_sc env' templates st row = process_prep_sc env templates st row"
proof -
  show "process_action env' templates st action = process_action env templates st action"
    unfolding env'_def process_action_def usable_connection_frequency
    by (cases "usable_connection env (email action)")
       (simp_all add: send_and_record_frequency split: option.splits sum.splits)
  show "process_goal env' templates st row = process_goal env templates st row"
    unfolding env'_def process_goal_def usable_connection_frequency Let_def
    by (cases "usable_connection env (the (e_company_email (snd row)))")
       (simp_all add: send_and_record_frequency split: option.splits sum.splits)
  show "process_prep env' templates st row = process_prep env templates st row"
    unfolding env'_def process_prep_def usable_connection_frequency Let_def
    by (cases "usable_connection env (the (e_company_email (snd row)))")
       (simp_all add: send_and_record_frequency split: option.splits sum.splits)
  show "process_action_sc env' templates st action = process_action_sc env templates st action"
    unfolding env'_def process_action_sc_def usable_connection_frequency
    by (cases "usable_connection_sc env (email action)")
       (simp_all add: send_and_record_frequency split: option.splits sum.splits)
  show "process_goal_sc env' templates st row = process_goal_sc env templates st row"
    unfolding env'_def process_goal_sc_def usable_connection_frequency Let_def
    by (cases "usable_connection_sc env (the (e_company_email (snd row)))")
       (simp_all add: send_and_record_frequency split: option.splits sum.splits)
  show "process_prep_sc env' templates st row = process_prep_sc env templates st row"
    unfolding env'_def process_prep_sc_def usable_connection_frequency Let_def
    by (cases "usable_connection_sc env (the (e_company_email (snd row)))")
       (simp_all add: send_and_record_frequency split: option.splits sum.splits)
qed


lemma scheduler_frequency:
  fixes env :: sched_env and f :: string
  defines "env' \<equiv> env\<lparr> env_connection :=
            (\<lambda>m. map_option (map (\<lambda>c. c\<lparr> nudge_frequency := f \<rparr>)) (env_connection env m)) \<rparr>"
  shows "nudge_scheduler env' today db st = nudge_scheduler env today db st"
    and "nudge_scheduler_sc env' today db st = nudge_scheduler_sc env today db st"
proof -
  have a: "process_action env' templates = process_action env templates" for templates
    unfolding env'_def by (intro ext) (rule process_frequency(1))
  have g: "process_goal env' templates = process_goal env templates" for templates
    unfolding env'_def by (intro ext) (rule process_frequency(2))
  have p: "process_prep env' templates = process_prep env templates" for templates
    unfolding env'_def by (intro ext) (rule process_frequency(3))
  have a': "process_action_sc env' templates = process_action_sc env templates" for templates
    unfolding env'_def by (intro ext) (rule process_frequency(4))
  have g': "process_goal_sc env' templates = process_goal_sc env templates" for templates
    unfolding env'_def by (intro ext) (rule process_frequency(5))
  have p': "process_prep_sc env' templates = process_prep_sc env templates" for templates
    unfolding env'_def by (intro ext) (rule process_frequency(6))
  have n: "env_first_name env' = env_first_name env" by (simp add: env'_def)
  show "nudge_scheduler env' today db st = nudge_scheduler env today db st"
    by (simp only: nudge_scheduler_def a g p n)
  show "nudge_scheduler_sc env' today db st = nudge_scheduler_sc env today db st"
    by (simp only: nudge_scheduler_sc_def a' g' p' n)
qed

text \<open>
  Claim C2, evaluated. The employee's connection has \<^verbatim>\<open>nudge_enabled\<close> true and
  frequency mode \<^verbatim>\<open>none\<close>. Both variants send her action reminder, and a whole run
  sends the reminder and the goal check-in. In general, setting the mode of every
  connection to \<^verbatim>\<open>none\<close> changes nothing in a run of either variant: the mode is
  never read.
\<close>

theorem frequency_none_still_sends:
  "map (\<lambda>c. (nudge_enabled c, nudge_frequency c))
     (the (env_connection (scenario_env True ''none'') ''ann@example.com''))
     = [(True, ''none'')]
   \<and> map m_text (posted (process_action (scenario_env True ''none'') scenario_templates
                          nothing_sent scenario_action))
       = [''Reminder: Read chapter 2'']
   \<and> map m_text (posted (process_action_sc (scenario_env True ''none'') scenario_templates
                          nothing_sent scenario_action))
       = [''Reminder: Read chapter 2'']
   \<and> map m_blocks (posted (nudge_scheduler (scenario_env True ''none'') 19676 scenario_tables
                            nothing_sent))
       = [''[Hi Ann, Cy Coach asked: Read chapter 2 by *Tomorrow*. See /actions]'',
          ''[Hi Ann, how are your goals going: Delegate more]'']
   \<and> map m_blocks (posted (nudge_scheduler_sc (scenario_env True ''none'') 19676 scenario_tables
                            nothing_sent))
       = [''[Hi Ann, Cy Coach asked: Read chapter 2 by *Tomorrow*. See {{portal_url}}/actions]'',
          ''[Hi Ann, how are your goals going: Delegate more]'']
   \<and> nudge_scheduler
         (env\<lparr> env_connection :=
                (\<lambda>m. map_option (map (\<lambda>c. c\<lparr> nudge_frequency := ''none'' \<rparr>))
                        (env_connection env m)) \<rparr>) today db st
       = nudge_scheduler env today db st
   \<and> nudge_scheduler_sc
         (env\<lparr> env_connection :=
                (\<lambda>m. map_option (map (\<lambda>c. c\<lparr> nudge_frequency := ''none'' \<rparr>))
                        (env_connection env m)) \<rparr>) today db st
       = nudge_scheduler_sc env today db st"
proof (intro conjI)
  show "map (\<lambda>c. (nudge_enabled c, nudge_frequency c))
     (the (env_connection (scenario_env True ''none'') ''ann@example.com''))
     = [(True, ''none'')]" by code_simp
  show "map m_text (posted (process_action (scenario_env True ''none'') scenario_templates
                          nothing_sent scenario_action))
       = [''Reminder: Read chapter 2'']" by code_simp
  show "map m_text (posted (process_action_sc (scenario_env True ''none'') scenario_templates
                          nothing_sent scenario_action))
       = [''Reminder: Read chapter 2'']" by code_simp
  show "map m_blocks (posted (nudge_scheduler (scenario_env True ''none'') 19676 scenario_tables
                            nothing_sent))
       = [''[Hi Ann, Cy Coach asked: Read chapter 2 by *Tomorrow*. See /actions]'',
          ''[Hi Ann, how are your goals going: Delegate more]'']" by code_simp
  show "map m_blocks (posted (nudge_scheduler_sc (scenario_env True ''none'') 19676 scenario_tables
                            nothing_sent))
       = [''[Hi Ann, Cy Coach asked: Read chapter 2 by *Tomorrow*. See {{portal_url}}/actions]'',
          ''[Hi Ann, how are your goals going: Delegate more]'']" by code_simp
  show "nudge_scheduler
         (env\<lparr> env_connection :=
                (\<lambda>m. map_option (map (\<lambda>c. c\<lparr> nudge_frequency := ''none'' \<rparr>))
                        (env_connection env m)) \<rparr>) today db st
       = nudge_scheduler env today db st" by (rule scheduler_frequency(1))
  show "nudge_scheduler_sc
         (env\<lparr> env_connection :=
                (\<lambda>m. map_option (map (\<lambda>c. c\<lparr> nudge_frequency := ''none'' \<rparr>))
                        (env_connection env m)) \<rparr>) today db st
       = nudge_scheduler_sc env today db st" by (rule scheduler_frequency(2))
qed

text \<open>
  Claim C3, evaluated on two runs in succession over the same tables. The first run
  sends the action reminder and the goal check-in and records both. Before the second
  run the key (ann@example.com, action_reminder, a1) has a row; the second run sends the
  action reminder again and records it again, while the goal check-in, whose section
  asks for an existing nudge first, is not repeated.
\<close>

theorem second_run_repeats_action_reminder:
  "map (\<lambda>a. (action_id a, email a))
     (get_due_action_items (\<lambda>mail. ''Ann'') 19676 2 (action_items scenario_tables))
     = [(''a1'', ''ann@example.com'')]
   \<and> map m_blocks (posted (nudge_scheduler (scenario_env True ''smart'') 19676 scenario_tables
                            nothing_sent))
       = [''[Hi Ann, Cy Coach asked: Read chapter 2 by *Tomorrow*. See /actions]'',
          ''[Hi Ann, how are your goals going: Delegate more]'']
   \<and> existingNudge
         (nudges (nudge_scheduler (scenario_env True ''smart'') 19676 scenario_tables nothing_sent))
         ''ann@example.com'' ''action_reminder'' ''a1'' \<noteq> None
   \<and> map m_blocks (posted (nudge_scheduler (scenario_env True ''smart'') 19676 scenario_tables
          (nudge_scheduler (scenario_env True ''smart'') 19676 scenario_tables nothing_sent)))
       = [''[Hi Ann, Cy Coach asked: Read chapter 2 by *Tomorrow*. See /actions]'',
          ''[Hi Ann, how are your goals going: Delegate more]'',
          ''[Hi Ann, Cy Coach asked: Read chapter 2 by *Tomorrow*. See /actions]'']
   \<and> action_reminders_sent (nudge_scheduler (scenario_env True ''smart'') 19676 scenario_tables
          (nudge_scheduler (scenario_env True ''smart'') 19676 scenario_tables nothing_sent)) = 1
   \<and> goal_checkins_sent (nudge_scheduler (scenario_env True ''smart'') 19676 scenario_tables
          (nudge_scheduler (scenario_env True ''smart'') 19676 scenario_tables nothing_sent)) = 0
   \<and> map (\<lambda>n. (n_employee_email n, n_nudge_type n, n_reference_id n))
        (nudges (nudge_scheduler (scenario_env True ''smart'') 19676 scenario_tables
          (nudge_scheduler (scenario_env True ''smart'') 19676 scenario_tables nothing_sent)))
       = [(''ann@example.com'', ''action_reminder'', ''a1''),
          (''ann@example.com'', ''goal_checkin'', ''g1''),
          (''ann@example.com'', ''action_reminder'', ''a1'')]"
  by code_simp

text \<open>
  The sections for goal check-ins and session preparation skip a candidate whose key
  has a row.
\<close>

lemma dedupe_skips_goal_and_prep:
  assumes "existingNudge (nudges st) mail kind (s_id s) \<noteq> None"
      and "e_company_email emp = Some mail"
  shows "kind = ''goal_checkin'' \<Longrightarrow> process_goal env templates st (s, emp) = st"
    and "kind = ''session_prep'' \<Longrightarrow> process_prep env templates st (s, emp) = st"
    and "kind = ''goal_checkin'' \<Longrightarrow> process_goal_sc env templates st (s, emp) = st"
    and "kind = ''session_prep'' \<Longrightarrow> process_prep_sc env templates st (s, emp) = st"
  using assms
  by (simp_all add: process_goal_def process_prep_def process_goal_sc_def process_prep_sc_def
        Let_def)


subsection \<open>The timing gate inside the Dispatcher\<close>

text \<open>
  A candidate's processing changes the state only past the guards: a resolved
  connection, the enabled flag, an open gate.
\<close>

lemma closed_gate_unusable:
  assumes "env_connection env mail = Some (c # cs)"
  shows "\<not> isAppropriateTime (preferred_time c) (env_user_time env (timezone c))
           \<Longrightarrow> usable_connection env mail = None"
    and "\<not> isAppropriateTime_sc (preferred_time c) (env_user_time env (timezone c))
           \<Longrightarrow> usable_connection_sc env mail = None"
  using assms by (simp_all add: usable_connection_def usable_connection_sc_def)

lemma usable_connection_SomeD:
  assumes "usable_connection env mail = Some c"
  shows "(\<exists>cs. env_connection env mail = Some (c # cs)) \<and> nudge_enabled c
         \<and> isAppropriateTime (preferred_time c) (env_user_time env (timezone c))"
proof (cases "env_connection env mail")
  case None
  with assms show ?thesis by (simp add: usable_connection_def)
next
  case (Some rows)
  show ?thesis
  proof (cases rows)
    case Nil
    with Some assms show ?thesis by (simp add: usable_connection_def)
  next
    case (Cons c' cs)
    with Some assms show ?thesis
      by (simp add: usable_connection_def split: if_splits)
  qed
qed

lemma usable_connection_sc_SomeD:
  assumes "usable_connection_sc env mail = Some c"
  shows "(\<exists>cs. env_connection env mail = Some (c # cs)) \<and> nudge_enabled c
         \<and> isAppropriateTime_sc (preferred_time c) (env_user_time env (timezone c))"
proof (cases "env_connection env mail")
  case None
  with assms show ?thesis by (simp add: usable_connection_sc_def)
next
  case (Some rows)
  show ?thesis
  proof (cases rows)
    case Nil
    with Some assms show ?thesis by (simp add: usable_connection_sc_def)
  next
    case (Cons c' cs)
    with Some assms show ?thesis
      by (simp add: usable_connection_sc_def split: if_splits)
  qed
qed

lemma changed_needs_usable:
  "process_action env templates st action \<noteq> st
     \<Longrightarrow> \<exists>c. usable_connection env (email action) = Some c"
  "process_goal env templates st (s, emp) \<noteq> st
     \<Longrightarrow> \<exists>mail c. e_company_email emp = Some mail \<and> usable_connection env mail = Some c"
  "process_prep env templates st (s, emp) \<noteq> st
     \<Longrightarrow> \<exists>mail c. e_company_email emp = Some mail \<and> usable_connection env mail = Some c"
proof -
  show "process_action env templates st action \<noteq> st
     \<Longrightarrow> \<exists>c. usable_connection env (email action) = Some c"
    by (cases "usable_connection env (email action)") (simp_all add: process_action_def)
  show "process_goal env templates st (s, emp) \<noteq> st
     \<Longrightarrow> \<exists>mail c. e_company_email emp = Some mail \<and> usable_connection env mail = Some c"
  proof (cases "e_company_email emp")
    case None
    assume "process_goal env templates st (s, emp) \<noteq> st"
    with None show ?thesis by (simp add: process_goal_def truthy_def)
  next
    case (Some mail)
    assume "process_goal env templates st (s, emp) \<noteq> st"
    with Some show ?thesis
      by (cases "usable_connection env mail")
         (simp_all add: process_goal_def Let_def split: if_splits)
  qed
  show "process_prep env templates st (s, emp) \<noteq> st
     \<Longrightarrow> \<exists>mail c. e_company_email emp = Some mail \<and> usable_connection env mail = Some c"
  proof (cases "e_company_email emp")
    case None
    assume "process_prep env templates st (s, emp) \<noteq> st"
    with None show ?thesis by (simp add: process_prep_def truthy_def)
  next
    case (Some mail)
    assume "process_prep env templates st (s, emp) \<noteq> st"
    with Some show ?thesis
      by (cases "usable_connection env mail")
         (simp_all add: process_prep_def Let_def split: if_splits)
  qed
qed

lemma changed_needs_usable_sc:
  "process_action_sc env templates st action \<noteq> st
     \<Longrightarrow> \<exists>c. usable_connection_sc env (email action) = Some c"
  "process_goal_sc env templates st (s, emp) \<noteq> st
     \<Longrightarrow> \<exists>mail c. e_company_email emp = Some mail \<and> usable_connection_sc env mail = Some c"
  "process_prep_sc env templates st (s, emp) \<noteq> st
     \<Longrightarrow> \<exists>mail c. e_company_email emp = Some mail \<and> usable_connection_sc env mail = Some c"
proof -
  show "process_action_sc env templates st action \<noteq> st
     \<Longrightarrow> \<exists>c. usable_connection_sc env (email action) = Some c"
    by (cases "usable_connection_sc env (email action)") (simp_all add: process_action_sc_def)
  show "process_goal_sc env templates st (s, emp) \<noteq> st
     \<Longrightarrow> \<exists>mail c. e_company_email emp = Some mail \<and> usable_connection_sc env mail = Some c"
  proof (cases "e_company_email emp")
    case None
    assume "process_goal_sc env templates st (s, emp) \<noteq> st"
    with None show ?thesis by (simp add: process_goal_sc_def truthy_def)
  next
    case (Some mail)
    assume "process_goal_sc env templates st (s, emp) \<noteq> st"
    with Some show ?thesis
      by (cases "usable_connection_sc env mail")
         (simp_all add: process_goal_sc_def Let_def split: if_splits)
  qed
  show "process_prep_sc env templates st (s, emp) \<noteq> st
     \<Longrightarrow> \<exists>mail c. e_company_email emp = Some mail \<and> usable_connection_sc env mail = Some c"
  proof (cases "e_company_email emp")
    case None
    assume "process_prep_sc env templates st (s, emp) \<noteq> st"
    with None show ?thesis by (simp add: process_prep_sc_def truthy_def)
  next
    case (Some mail)
    assume "process_prep_sc env templates st (s, emp) \<noteq> st"
    with Some show ?thesis
      by (cases "usable_connection_sc env mail")
         (simp_all add: process_prep_sc_def Let_def split: if_splits)
  qed
qed

text \<open>
  So a candidate produces a send only when its connection is enabled and either the
  gate failed open (no preferred time in the shared variant, no printed hour) or the
  two hours differ by at most one.
\<close>

lemma dispatcher_sends_only_through_gate:
  assumes "posted (process_action env templates st action) \<noteq> posted st
           \<and> mail = email action
         \<or> (posted (process_goal env templates st (s, emp)) \<noteq> posted st
             \<or> posted (process_prep env templates st (s, emp)) \<noteq> posted st)
           \<and> e_company_email emp = Some mail"
  shows "\<exists>c cs. env_connection env mail = Some (c # cs) \<and> nudge_enabled c
           \<and> (preferred_time c = None \<or> env_user_time env (timezone c) = None
                \<or> (\<exists>pt ut h p. preferred_time c = Some pt
                      \<and> env_user_time env (timezone c) = Some ut
                      \<and> parseInt10 ut = Some h
                      \<and> parseInt10 (hd (split CHR '':'' pt)) = Some p
                      \<and> \<bar>h - p\<bar> \<le> 1))"
proof -
  have "\<exists>c. usable_connection env mail = Some c"
    using assms
  proof (elim disjE conjE)
    assume "posted (process_action env templates st action) \<noteq> posted st" "mail = email action"
    then have "process_action env templates st action \<noteq> st" by auto
    from changed_needs_usable(1)[OF this] \<open>mail = email action\<close> show ?thesis by simp
  next
    assume "posted (process_goal env templates st (s, emp)) \<noteq> posted st"
       and e: "e_company_email emp = Some mail"
    then have "process_goal env templates st (s, emp) \<noteq> st" by auto
    from changed_needs_usable(2)[OF this] e show ?thesis by simp
  next
    assume "posted (process_prep env templates st (s, emp)) \<noteq> posted st"
       and e: "e_company_email emp = Some mail"
    then have "process_prep env templates st (s, emp) \<noteq> st" by auto
    from changed_needs_usable(3)[OF this] e show ?thesis by simp
  qed
  then obtain c where "usable_connection env mail = Some c" ..
  from usable_connection_SomeD[OF this] obtain cs where
    c: "env_connection env mail = Some (c # cs)" "nudge_enabled c"
       "isAppropriateTime (preferred_time c) (env_user_time env (timezone c))" by blast
  from open_gate_cases[OF c(3)] c(1,2) show ?thesis by blast
qed

lemma dispatcher_sc_sends_only_through_gate:
  assumes "posted (process_action_sc env templates st action) \<noteq> posted st
           \<and> mail = email action
         \<or> (posted (process_goal_sc env templates st (s, emp)) \<noteq> posted st
             \<or> posted (process_prep_sc env templates st (s, emp)) \<noteq> posted st)
           \<and> e_company_email emp = Some mail"
  shows "\<exists>c cs. env_connection env mail = Some (c # cs) \<and> nudge_enabled c
           \<and> (env_user_time env (timezone c) = None
                \<or> (\<exists>ut h p. env_user_time env (timezone c) = Some ut
                      \<and> parseInt10 ut = Some h \<and> \<bar>h - p\<bar> \<le> 1
                      \<and> parseInt10
                           (let field = (case preferred_time c of None \<Rightarrow> []
                                         | Some pt \<Rightarrow> hd (split CHR '':'' pt))
                            in if field = [] then ''9'' else field) = Some p))"
proof -
  have "\<exists>c. usable_connection_sc env mail = Some c"
    using assms
  proof (elim disjE conjE)
    assume "posted (process_action_sc env templates st action) \<noteq> posted st" "mail = email action"
    then have "process_action_sc env templates st action \<noteq> st" by auto
    from changed_needs_usable_sc(1)[OF this] \<open>mail = email action\<close> show ?thesis by simp
  next
    assume "posted (process_goal_sc env templates st (s, emp)) \<noteq> posted st"
       and e: "e_company_email emp = Some mail"
    then have "process_goal_sc env templates st (s, emp) \<noteq> st" by auto
    from changed_needs_usable_sc(2)[OF this] e show ?thesis by simp
  next
    assume "posted (process_prep_sc env templates st (s, emp)) \<noteq> posted st"
       and e: "e_company_email emp = Some mail"
    then have "process_prep_sc env templates st (s, emp) \<noteq> st" by auto
    from changed_needs_usable_sc(3)[OF this] e show ?thesis by simp
  qed
  then obtain c where "usable_connection_sc env mail = Some c" ..
  from usable_connection_sc_SomeD[OF this] obtain cs where
    c: "env_connection env mail = Some (c # cs)" "nudge_enabled c"
       "isAppropriateTime_sc (preferred_time c) (env_user_time env (timezone c))" by blast
  from open_gate_sc_cases[OF c(3)] c(1,2) show ?thesis by blast
qed

text \<open>
  Claim C9. Take a candidate whose connection has preferred time 23:00 (any minutes
  and seconds) while the hour printed for the recipient's time zone reads as 0. The
  hours parse as 23 and 0, their distance is 23, the gate is closed, and the candidate
  is skipped: its processing leaves the state as it was, for the three nudge kinds and
  both variants of the scheduler. The window does not wrap around midnight.
\<close>

theorem midnight_candidate_skipped:
  assumes conn: "env_connection env mail = Some (c # cs)"
      and pref: "preferred_time c = Some (''23:'' @ mm)"
      and hour: "env_user_time env (timezone c) = Some printed"
      and zero: "parseInt10 printed = Some 0"
  shows "parseInt10 (hd (split CHR '':'' (''23:'' @ mm))) = Some 23
       \<and> \<bar>(0::int) - 23\<bar> = 23
       \<and> \<not> isAppropriateTime (preferred_time c) (env_user_time env (timezone c))
       \<and> \<not> isAppropriateTime_sc (preferred_time c) (env_user_time env (timezone c))
       \<and> (email action = mail \<longrightarrow>
            process_action env templates st action = st
          \<and> process_action_sc env templates st action = st)
       \<and> (e_company_email emp = Some mail \<longrightarrow>
            process_goal env templates st (s, emp) = st
          \<and> process_prep env templates st (s, emp) = st
          \<and> process_goal_sc env templates st (s, emp) = st
          \<and> process_prep_sc env templates st (s, emp) = st)"
proof -
  note m = gate_closed_at_midnight[OF zero, of mm]
  have g: "\<not> isAppropriateTime (preferred_time c) (env_user_time env (timezone c))"
    unfolding pref hour by (rule m(2))
  have g': "\<not> isAppropriateTime_sc (preferred_time c) (env_user_time env (timezone c))"
    unfolding pref hour by (rule m(3))
  have u: "usable_connection env mail = None"
    by (rule closed_gate_unusable(1)[OF conn g])
  have u': "usable_connection_sc env mail = None"
    by (rule closed_gate_unusable(2)[OF conn g'])
  show ?thesis
  proof (intro conjI impI)
    show "parseInt10 (hd (split CHR '':'' (''23:'' @ mm))) = Some 23" by (rule m(1))
    show "\<bar>(0::int) - 23\<bar> = 23" by simp
    show "\<not> isAppropriateTime (preferred_time c) (env_user_time env (timezone c))" by (rule g)
    show "\<not> isAppropriateTime_sc (preferred_time c) (env_user_time env (timezone c))" by (rule g')
  next
    assume "email action = mail"
    with u show "process_action env templates st action = st"
      by (simp add: process_action_def)
  next
    assume "email action = mail"
    with u' show "process_action_sc env templates st action = st"
      by (simp add: process_action_sc_def)
  next
    assume e: "e_company_email emp = Some mail"
    show "process_goal env templates st (s, emp) = st" by (rule process_goal_unusable[OF u e])
  next
    assume e: "e_company_email emp = Some mail"
    show "process_prep env templates st (s, emp) = st" by (rule process_prep_unusable[OF u e])
  next
    assume e: "e_company_email emp = Some mail"
    show "process_goal_sc env templates st (s, emp) = st"
      by (rule process_goal_sc_unusable[OF u' e])
  next
    assume e: "e_company_email emp = Some mail"
    show "process_prep_sc env templates st (s, emp) = st"
      by (rule process_prep_sc_unusable[OF u' e])
  qed
qed

theorem midnight_candidate_skipped_witness:
  "env_connection (gate_env (Some ''23:00:00'') ''00'') ''ann@example.com''
     = Some [(scenario_connection True ''smart'')\<lparr> preferred_time := Some ''23:00:00'' \<rparr>]
   \<and> parseInt10 ''00'' = Some 0
   \<and> email scenario_action = ''ann@example.com''
   \<and> process_action (gate_env (Some ''23:00:00'') ''00'') scenario_templates nothing_sent
        scenario_action = nothing_sent
   \<and> process_action_sc (gate_env (Some ''23:00:00'') ''00'') scenario_templates nothing_sent
        scenario_action = nothing_sent
   \<and> map m_text (posted (process_action (gate_env (Some ''23:00:00'') ''23'') scenario_templates
                          nothing_sent scenario_action))
       = [''Reminder: Read chapter 2'']"
proof -
  let ?c = "(scenario_connection True ''smart'')\<lparr> preferred_time := Some ''23:00:00'' \<rparr>"
  let ?env = "gate_env (Some ''23:00:00'') ''00''"
  have h1: "env_connection ?env ''ann@example.com'' = Some (?c # [])" by code_simp
  have h2: "preferred_time ?c = Some (''23:'' @ ''00:00'')" by simp
  have h3: "env_user_time ?env (timezone ?c) = Some ''00''" by (simp add: gate_env_def)
  have h4: "parseInt10 ''00'' = Some 0" by code_simp
  have h5: "email scenario_action = ''ann@example.com''" by (simp add: scenario_action_def)
  have e: "map m_text (posted (process_action (gate_env (Some ''23:00:00'') ''23'')
                          scenario_templates nothing_sent scenario_action))
       = [''Reminder: Read chapter 2'']" by code_simp
  from midnight_candidate_skipped[OF h1 h2 h3 h4, of scenario_action scenario_templates nothing_sent] h1 h4 h5 e
  show ?thesis by simp
qed


end
